theory Spec2Isabelle
  imports Complex_Main
begin

section \<open>Values that cross the HTTP boundary\<close>

text \<open>
  A request body is whatever the JSON body parser left in \<open>req.body\<close>. A JSON number is
  modelled by its exact value; \<open>JNull\<close> also stands for a body that is not there at all
  (JavaScript \<open>undefined\<close>): the handlers treat both alike (destructuring throws, the
  object schemas reject).
\<close>

datatype json =
    JNull
  | JBool bool
  | JNum rat
  | JStr string
  | JArr "json list"
  | JObj "(string \<times> json) list"

type_synonym uuid = string
type_synonym timestamp = nat

datatype error = StoreError | ClerkError | TypeError | ConversionError | NoSuchToolError

text \<open>Property access \<open>obj[key]\<close> on a parsed object; \<open>None\<close> is \<open>undefined\<close>.\<close>

definition getProp :: "(string \<times> json) list \<Rightarrow> string \<Rightarrow> json option" where
  "getProp kv k = map_of kv k"

section \<open>The schema (src/db/schema.ts)\<close>

record user =
  uid :: uuid
  clerkUserId :: string
  email :: "string option"
  u_createdAt :: "timestamp option"
  u_updatedAt :: "timestamp option"

record contact =
  cid :: uuid
  userId :: uuid
  name :: string
  birthdayYear :: "int option"
  birthdayMonth :: int
  birthdayDay :: int
  createdAt :: "timestamp option"
  updatedAt :: "timestamp option"

record store =
  users :: "user list"
  contactsBirthdays :: "contact list"

text \<open>
  What a request handler gets from outside the program: whether the store answers
  (a query on an unreachable store throws), the clock, the identifier the store draws
  for a new row (\<open>defaultRandom()\<close>), and the store's reading of a text as a value of a
  \<open>uuid\<close> column (\<open>None\<close>: the text is no uuid, and the query that carries it throws).
  A value of type \<open>uuid\<close> is a uuid in the store's own spelling.
\<close>

record env =
  storeUp :: bool
  now :: timestamp
  randomUuid :: uuid
  uuidIn :: "string \<Rightarrow> uuid option"

record request =
  auth_userId :: "string option"
  params_id :: string
  req_body :: json

section \<open>Responses\<close>

datatype message = Message string | LibraryMessage zod_default
and zod_default = InvalidType | NotAnInteger

datatype issue = Issue (issue_path: "string list") (issue_message: message)

record field_error =
  field :: string
  message :: message

datatype body =
    ErrorBody string
  | ErrorsBody "field_error list"
  | ContactBody contact
  | ContactsBody "contact list"
  | SuccessBody
  | UndefinedBody
  | NoBody

datatype response = Response (status: nat) (payload: body)

section \<open>Validation (the Zod schemas of the contacts controller)\<close>

definition isInteger :: "rat \<Rightarrow> bool" where
  "isInteger r = (of_int \<lfloor>r\<rfloor> = r)"

text \<open>\<open>z.string().min(1, msg)\<close>\<close>

fun zStringMin1 :: "string \<Rightarrow> json option \<Rightarrow> message list + string" where
  "zStringMin1 msg (Some (JStr s)) = (if length s < 1 then Inl [Message msg] else Inr s)"
| "zStringMin1 msg _ = Inl [LibraryMessage InvalidType]"

text \<open>
  \<open>z.number().int().min(lo, msg).max(hi, msg)\<close>: on a number every check runs and adds
  its own issue.
\<close>

definition numberChecks :: "int \<Rightarrow> int \<Rightarrow> string \<Rightarrow> rat \<Rightarrow> message list" where
  "numberChecks lo hi msg r =
     (if isInteger r then [] else [LibraryMessage NotAnInteger]) @
     (if r < of_int lo then [Message msg] else []) @
     (if of_int hi < r then [Message msg] else [])"

fun zIntMinMax :: "int \<Rightarrow> int \<Rightarrow> string \<Rightarrow> json option \<Rightarrow> message list + int" where
  "zIntMinMax lo hi msg (Some (JNum r)) =
     (if numberChecks lo hi msg r = [] then Inr \<lfloor>r\<rfloor> else Inl (numberChecks lo hi msg r))"
| "zIntMinMax lo hi msg _ = Inl [LibraryMessage InvalidType]"

text \<open>
  \<open>z.number().int().nullable().optional()\<close>: the outer option is "key supplied", the inner
  one is \<open>null\<close>.
\<close>

fun zIntNullableOptional :: "json option \<Rightarrow> message list + int option option" where
  "zIntNullableOptional None = Inr None"
| "zIntNullableOptional (Some JNull) = Inr (Some None)"
| "zIntNullableOptional (Some (JNum r)) =
     (if isInteger r then Inr (Some (Some \<lfloor>r\<rfloor>)) else Inl [LibraryMessage NotAnInteger])"
| "zIntNullableOptional (Some _) = Inl [LibraryMessage InvalidType]"

text \<open>\<open>.optional()\<close> around a schema.\<close>

fun optional :: "(json option \<Rightarrow> message list + 'a) \<Rightarrow> json option \<Rightarrow> message list + 'a option" where
  "optional p None = Inr None"
| "optional p (Some v) = (case p (Some v) of Inl ms \<Rightarrow> Inl ms | Inr x \<Rightarrow> Inr (Some x))"

definition issuesAt :: "string \<Rightarrow> message list + 'a \<Rightarrow> issue list" where
  "issuesAt k r = (case r of Inl ms \<Rightarrow> map (Issue [k]) ms | Inr _ \<Rightarrow> [])"

record create_data =
  new_name :: string
  new_birthdayMonth :: int
  new_birthdayDay :: int
  new_birthdayYear :: "int option option"

definition createContactSchema :: "json \<Rightarrow> issue list + create_data" where
  "createContactSchema b =
     (case b of
        JObj kv \<Rightarrow>
          (let n = zStringMin1 ''Name is required'' (getProp kv ''name'');
               m = zIntMinMax 1 12 ''Month must be between 1 and 12'' (getProp kv ''birthdayMonth'');
               d = zIntMinMax 1 31 ''Day must be between 1 and 31'' (getProp kv ''birthdayDay'');
               y = zIntNullableOptional (getProp kv ''birthdayYear'')
           in case (n, m, d, y) of
                (Inr n', Inr m', Inr d', Inr y') \<Rightarrow>
                  Inr \<lparr>new_name = n', new_birthdayMonth = m', new_birthdayDay = d',
                       new_birthdayYear = y'\<rparr>
              | _ \<Rightarrow>
                  Inl (issuesAt ''name'' n @ issuesAt ''birthdayMonth'' m @
                       issuesAt ''birthdayDay'' d @ issuesAt ''birthdayYear'' y))
      | _ \<Rightarrow> Inl [Issue [] (LibraryMessage InvalidType)])"

record update_data =
  set_name :: "string option"
  set_birthdayMonth :: "int option"
  set_birthdayDay :: "int option"
  set_birthdayYear :: "int option option"

text \<open>
  The parsed object of the update schema has a key exactly for the schema's keys that the
  body carries, so \<open>Object.keys(data).length\<close> counts those.
\<close>

definition suppliedKeys :: "(string \<times> json) list \<Rightarrow> string list" where
  "suppliedKeys kv =
     filter (\<lambda>k. getProp kv k \<noteq> None) [''name'', ''birthdayMonth'', ''birthdayDay'', ''birthdayYear'']"

definition updateContactSchema :: "json \<Rightarrow> issue list + update_data" where
  "updateContactSchema b =
     (case b of
        JObj kv \<Rightarrow>
          (let n = optional (zStringMin1 ''Name cannot be empty'') (getProp kv ''name'');
               m = optional (zIntMinMax 1 12 ''Month must be between 1 and 12'') (getProp kv ''birthdayMonth'');
               d = optional (zIntMinMax 1 31 ''Day must be between 1 and 31'') (getProp kv ''birthdayDay'');
               y = zIntNullableOptional (getProp kv ''birthdayYear'')
           in case (n, m, d, y) of
                (Inr n', Inr m', Inr d', Inr y') \<Rightarrow>
                  (if length (suppliedKeys kv) > 0
                   then Inr \<lparr>set_name = n', set_birthdayMonth = m', set_birthdayDay = d',
                             set_birthdayYear = y'\<rparr>
                   else Inl [Issue [] (Message ''At least one field must be provided for update'')])
              | _ \<Rightarrow>
                  Inl (issuesAt ''name'' n @ issuesAt ''birthdayMonth'' m @
                       issuesAt ''birthdayDay'' d @ issuesAt ''birthdayYear'' y))
      | _ \<Rightarrow> Inl [Issue [] (LibraryMessage InvalidType)])"

text \<open>\<open>path.join('.')\<close>\<close>

fun joinDot :: "string list \<Rightarrow> string" where
  "joinDot [] = []"
| "joinDot [p] = p"
| "joinDot (p # q # ps) = p @ ''.'' @ joinDot (q # ps)"

definition formatZodError :: "issue list \<Rightarrow> field_error list" where
  "formatZodError issues =
     map (\<lambda>i. \<lparr>field = joinDot (issue_path i), message = issue_message i\<rparr>) issues"

section \<open>Store queries\<close>

text \<open>
  The tables are lists of rows. Every query throws on an unreachable store and is atomic:
  a query that throws leaves the tables as they were. The \<open>id\<close> of the URL reaches the
  store as a text: the store reads it as a uuid, throws when it is none, and compares the
  uuid it has read. The user's id comes out of the users table and is a uuid already.
  An \<open>integer\<close> column holds 32 bits, and a \<open>text\<close> column holds no character of code 0: an
  insert or update that carries a number outside that range, or a name with such a
  character, throws. The identity and the email of a user come from the identity
  provider, not from the request's body, and are taken to be texts the store holds.
\<close>

definition query :: "env \<Rightarrow> 'a \<Rightarrow> error + 'a" where
  "query e r = (if storeUp e then Inr r else Inl StoreError)"

definition selectUserByClerkId :: "env \<Rightarrow> store \<Rightarrow> string \<Rightarrow> error + user list" where
  "selectUserByClerkId e st c = query e (take 1 (filter (\<lambda>u. clerkUserId u = c) (users st)))"

definition owned :: "uuid \<Rightarrow> uuid \<Rightarrow> contact \<Rightarrow> bool" where
  "owned i u c = (cid c = i \<and> userId c = u)"

definition selectContactsOfUser :: "env \<Rightarrow> store \<Rightarrow> uuid \<Rightarrow> error + contact list" where
  "selectContactsOfUser e st u = query e (filter (\<lambda>c. userId c = u) (contactsBirthdays st))"

definition selectContact :: "env \<Rightarrow> store \<Rightarrow> string \<Rightarrow> uuid \<Rightarrow> error + contact list" where
  "selectContact e st i u =
     (if \<not> storeUp e then Inl StoreError
      else case uuidIn e i of
             None \<Rightarrow> Inl StoreError
           | Some v \<Rightarrow> Inr (take 1 (filter (owned v u) (contactsBirthdays st))))"

definition textColumn :: "string \<Rightarrow> bool" where
  "textColumn t = (CHR 0x00 \<notin> set t)"

definition integerColumn :: "int option \<Rightarrow> bool" where
  "integerColumn v = (case v of None \<Rightarrow> True | Some i \<Rightarrow> - 2147483648 \<le> i \<and> i \<le> 2147483647)"

text \<open>
  \<open>insert(...).values(...).returning()\<close>: the row gets its identifier and both timestamps
  from the column defaults; a primary key that is already there makes the insert throw,
  and so does a name that a \<open>text\<close> column, or a year, month or day that an \<open>integer\<close>
  column cannot hold.
\<close>

definition insertContact :: "env \<Rightarrow> store \<Rightarrow> uuid \<Rightarrow> string \<Rightarrow> int option \<Rightarrow> int \<Rightarrow> int \<Rightarrow>
    error + (contact list \<times> store)" where
  "insertContact e st u n y m d =
     (if \<not> storeUp e \<or> randomUuid e \<in> cid ` set (contactsBirthdays st) \<or>
         \<not> textColumn n \<or>
         \<not> integerColumn y \<or> \<not> integerColumn (Some m) \<or> \<not> integerColumn (Some d)
      then Inl StoreError
      else let row = \<lparr>cid = randomUuid e, userId = u, name = n, birthdayYear = y,
                      birthdayMonth = m, birthdayDay = d,
                      createdAt = Some (now e), updatedAt = Some (now e)\<rparr>
           in Inr ([row], st\<lparr>contactsBirthdays := contactsBirthdays st @ [row]\<rparr>))"

definition applyUpdate :: "timestamp \<Rightarrow> update_data \<Rightarrow> contact \<Rightarrow> contact" where
  "applyUpdate t upd c =
     c\<lparr>name := (case set_name upd of None \<Rightarrow> name c | Some n \<Rightarrow> n),
       birthdayYear := (case set_birthdayYear upd of None \<Rightarrow> birthdayYear c | Some y \<Rightarrow> y),
       birthdayMonth := (case set_birthdayMonth upd of None \<Rightarrow> birthdayMonth c | Some m \<Rightarrow> m),
       birthdayDay := (case set_birthdayDay upd of None \<Rightarrow> birthdayDay c | Some d \<Rightarrow> d),
       updatedAt := Some t\<rparr>"

text \<open>
  \<open>update(...).set(updateData).where(...).returning()\<close>: it carries the name, year,
  month and day that \<open>updateData\<close> holds.
\<close>

definition updateContactRows :: "env \<Rightarrow> store \<Rightarrow> string \<Rightarrow> uuid \<Rightarrow> update_data \<Rightarrow>
    error + (contact list \<times> store)" where
  "updateContactRows e st i u upd =
     (if \<not> storeUp e \<or>
         \<not> (case set_name upd of None \<Rightarrow> True | Some n \<Rightarrow> textColumn n) \<or>
         \<not> integerColumn (case set_birthdayYear upd of None \<Rightarrow> None | Some y \<Rightarrow> y) \<or>
         \<not> integerColumn (set_birthdayMonth upd) \<or> \<not> integerColumn (set_birthdayDay upd)
      then Inl StoreError
      else case uuidIn e i of
             None \<Rightarrow> Inl StoreError
           | Some v \<Rightarrow>
               Inr (map (applyUpdate (now e) upd) (filter (owned v u) (contactsBirthdays st)),
                    st\<lparr>contactsBirthdays :=
                         map (\<lambda>c. if owned v u c then applyUpdate (now e) upd c else c)
                           (contactsBirthdays st)\<rparr>))"

definition deleteContactRows :: "env \<Rightarrow> store \<Rightarrow> string \<Rightarrow> uuid \<Rightarrow> error + store" where
  "deleteContactRows e st i u =
     (if \<not> storeUp e then Inl StoreError
      else case uuidIn e i of
             None \<Rightarrow> Inl StoreError
           | Some v \<Rightarrow>
               Inr (st\<lparr>contactsBirthdays :=
                         filter (\<lambda>c. \<not> owned v u c) (contactsBirthdays st)\<rparr>))"

section \<open>The contacts controller\<close>

text \<open>\<open>!clerkUserId\<close>: \<open>undefined\<close>, \<open>null\<close> and the empty string are falsy.\<close>

definition falsy :: "string option \<Rightarrow> bool" where
  "falsy s = (s = None \<or> s = Some [])"

definition internalServerError :: response where
  "internalServerError = Response 500 (ErrorBody ''Internal server error'')"

text \<open>
  \<open>getAuthenticatedUser\<close> either throws, or has sent a response and returns \<open>null\<close>
  (\<open>Inr (Inl response)\<close>), or returns the user's row.
\<close>

definition getAuthenticatedUser :: "env \<Rightarrow> request \<Rightarrow> store \<Rightarrow> error + (response + user)" where
  "getAuthenticatedUser e req st =
     (if falsy (auth_userId req) then Inr (Inl (Response 401 (ErrorBody ''Unauthorized'')))
      else case selectUserByClerkId e st (the (auth_userId req)) of
             Inl err \<Rightarrow> Inl err
           | Inr [] \<Rightarrow> Inr (Inl (Response 404 (ErrorBody ''User not found'')))
           | Inr (u # _) \<Rightarrow> Inr (Inr u))"

definition getContacts :: "env \<Rightarrow> request \<Rightarrow> store \<Rightarrow> response \<times> store" where
  "getContacts e req st =
     (case getAuthenticatedUser e req st of
        Inl _ \<Rightarrow> (internalServerError, st)
      | Inr (Inl r) \<Rightarrow> (r, st)
      | Inr (Inr userRecord) \<Rightarrow>
          (case selectContactsOfUser e st (uid userRecord) of
             Inl _ \<Rightarrow> (internalServerError, st)
           | Inr contacts \<Rightarrow> (Response 200 (ContactsBody contacts), st)))"

definition getContactById :: "env \<Rightarrow> request \<Rightarrow> store \<Rightarrow> response \<times> store" where
  "getContactById e req st =
     (case getAuthenticatedUser e req st of
        Inl _ \<Rightarrow> (internalServerError, st)
      | Inr (Inl r) \<Rightarrow> (r, st)
      | Inr (Inr userRecord) \<Rightarrow>
          (case selectContact e st (params_id req) (uid userRecord) of
             Inl _ \<Rightarrow> (internalServerError, st)
           | Inr [] \<Rightarrow> (Response 404 (ErrorBody ''Contact not found''), st)
           | Inr (c # _) \<Rightarrow> (Response 200 (ContactBody c), st)))"

text \<open>\<open>birthdayYear ?? null\<close>\<close>

definition orNull :: "'a option option \<Rightarrow> 'a option" where
  "orNull y = (case y of None \<Rightarrow> None | Some v \<Rightarrow> v)"

definition createContact :: "env \<Rightarrow> request \<Rightarrow> store \<Rightarrow> response \<times> store" where
  "createContact e req st =
     (case createContactSchema (req_body req) of
        Inl issues \<Rightarrow> (Response 400 (ErrorsBody (formatZodError issues)), st)
      | Inr d \<Rightarrow>
          (case getAuthenticatedUser e req st of
             Inl _ \<Rightarrow> (internalServerError, st)
           | Inr (Inl r) \<Rightarrow> (r, st)
           | Inr (Inr userRecord) \<Rightarrow>
               (case insertContact e st (uid userRecord) (new_name d)
                       (orNull (new_birthdayYear d)) (new_birthdayMonth d) (new_birthdayDay d) of
                  Inl _ \<Rightarrow> (internalServerError, st)
                | Inr ([], st') \<Rightarrow> (Response 201 UndefinedBody, st')
                | Inr (c # _, st') \<Rightarrow> (Response 201 (ContactBody c), st'))))"

definition updateContact :: "env \<Rightarrow> request \<Rightarrow> store \<Rightarrow> response \<times> store" where
  "updateContact e req st =
     (case updateContactSchema (req_body req) of
        Inl issues \<Rightarrow> (Response 400 (ErrorsBody (formatZodError issues)), st)
      | Inr upd \<Rightarrow>
          (case getAuthenticatedUser e req st of
             Inl _ \<Rightarrow> (internalServerError, st)
           | Inr (Inl r) \<Rightarrow> (r, st)
           | Inr (Inr userRecord) \<Rightarrow>
               (case selectContact e st (params_id req) (uid userRecord) of
                  Inl _ \<Rightarrow> (internalServerError, st)
                | Inr [] \<Rightarrow> (Response 404 (ErrorBody ''Contact not found''), st)
                | Inr (_ # _) \<Rightarrow>
                    (case updateContactRows e st (params_id req) (uid userRecord) upd of
                       Inl _ \<Rightarrow> (internalServerError, st)
                     | Inr ([], st') \<Rightarrow> (Response 200 UndefinedBody, st')
                     | Inr (c # _, st') \<Rightarrow> (Response 200 (ContactBody c), st')))))"

definition deleteContact :: "env \<Rightarrow> request \<Rightarrow> store \<Rightarrow> response \<times> store" where
  "deleteContact e req st =
     (case getAuthenticatedUser e req st of
        Inl _ \<Rightarrow> (internalServerError, st)
      | Inr (Inl r) \<Rightarrow> (r, st)
      | Inr (Inr userRecord) \<Rightarrow>
          (case selectContact e st (params_id req) (uid userRecord) of
             Inl _ \<Rightarrow> (internalServerError, st)
           | Inr [] \<Rightarrow> (Response 404 (ErrorBody ''Contact not found''), st)
           | Inr (_ # _) \<Rightarrow>
               (case deleteContactRows e st (params_id req) (uid userRecord) of
                  Inl _ \<Rightarrow> (internalServerError, st)
                | Inr st' \<Rightarrow> (Response 204 NoBody, st'))))"

section \<open>The users controller\<close>

text \<open>
  \<open>insert(users).values({clerkUserId, email}).onConflictDoUpdate({target: clerkUserId,
  set: {email, updatedAt}})\<close>. A row with the same \<open>clerkUserId\<close> is updated in place;
  the query builder leaves a column whose new value is \<open>undefined\<close> out of the update, so
  an absent email keeps the stored one. Otherwise a row is inserted with the column
  defaults.
\<close>

definition upsertUser :: "env \<Rightarrow> store \<Rightarrow> string \<Rightarrow> string option \<Rightarrow> error + store" where
  "upsertUser e st c em =
     (if \<not> storeUp e then Inl StoreError
      else if c \<in> clerkUserId ` set (users st)
      then Inr (st\<lparr>users :=
                  map (\<lambda>u. if clerkUserId u = c
                           then u\<lparr>email := (case em of None \<Rightarrow> email u | Some a \<Rightarrow> Some a),
                                  u_updatedAt := Some (now e)\<rparr>
                           else u) (users st)\<rparr>)
      else if randomUuid e \<in> uid ` set (users st) then Inl StoreError
      else Inr (st\<lparr>users := users st @
                  [\<lparr>uid = randomUuid e, clerkUserId = c, email = em,
                    u_createdAt = Some (now e), u_updatedAt = Some (now e)\<rparr>]\<rparr>))"

text \<open>
  \<open>getUser\<close> is the identity provider's client, reduced to what the handler reads of its
  answer: \<open>user.emailAddresses[0]?.emailAddress\<close>, or a throw.
\<close>

definition syncUser :: "(string \<Rightarrow> error + string option) \<Rightarrow> env \<Rightarrow> request \<Rightarrow> store \<Rightarrow>
    response \<times> store" where
  "syncUser getUser e req st =
     (if falsy (auth_userId req) then (Response 401 (ErrorBody ''Unauthorized''), st)
      else case getUser (the (auth_userId req)) of
             Inl _ \<Rightarrow> (internalServerError, st)
           | Inr em \<Rightarrow>
               (case upsertUser e st (the (auth_userId req)) em of
                  Inl _ \<Rightarrow> (internalServerError, st)
                | Inr st' \<Rightarrow> (Response 200 SuccessBody, st')))"

section \<open>The assistant controller\<close>

definition MODEL :: string where
  "MODEL = ''openai/gpt-oss-120b''"

definition MONTH_NAMES :: "string list" where
  "MONTH_NAMES =
     [''January'', ''February'', ''March'', ''April'', ''May'', ''June'',
      ''July'', ''August'', ''September'', ''October'', ''November'', ''December'']"

text \<open>An array element inside a template literal: out of range it reads \<open>undefined\<close>.\<close>

definition elementText :: "string list \<Rightarrow> int \<Rightarrow> string" where
  "elementText xs i = (if 0 \<le> i \<and> i < int (length xs) then xs ! nat i else ''undefined'')"

text \<open>
  An integer inside a template literal: its decimal digits, with a sign when negative
  (so JavaScript prints every integer below \<open>10^21\<close> in magnitude, which covers whatever
  an integer column holds).
\<close>

definition digitChars :: string where
  "digitChars = ''0123456789''"

fun digits :: "nat \<Rightarrow> string" where
  "digits n =
     (if n < 10 then [digitChars ! n] else digits (n div 10) @ [digitChars ! (n mod 10)])"

declare digits.simps [simp del]

definition numberText :: "int \<Rightarrow> string" where
  "numberText i = (if i < 0 then ''-'' @ digits (nat (- i)) else digits (nat i))"

text \<open>
  The object \<open>formatContact\<close> receives: a row of the table, and whatever \<open>notes\<close> property
  the object carries. The table declares no such column, so a selected row carries none.
\<close>

record contact_object = contact +
  "notes" :: "string option"

definition rowObject :: "contact \<Rightarrow> contact_object" where
  "rowObject c =
     \<lparr>cid = cid c, userId = userId c, name = name c, birthdayYear = birthdayYear c,
      birthdayMonth = birthdayMonth c, birthdayDay = birthdayDay c,
      createdAt = createdAt c, updatedAt = updatedAt c, notes = None\<rparr>"

text \<open>Truthiness of \<open>contact.birthdayYear\<close> and of \<open>contact.notes\<close>.\<close>

definition truthyNumber :: "int option \<Rightarrow> bool" where
  "truthyNumber y = (case y of None \<Rightarrow> False | Some v \<Rightarrow> v \<noteq> 0)"

definition truthyString :: "string option \<Rightarrow> bool" where
  "truthyString s = (case s of None \<Rightarrow> False | Some v \<Rightarrow> v \<noteq> [])"

definition formatContact :: "contact_object \<Rightarrow> string" where
  "formatContact c =
     (let birthday = elementText MONTH_NAMES (birthdayMonth c - 1) @ '' '' @
                     numberText (birthdayDay c) @
                     (if truthyNumber (birthdayYear c)
                      then '', '' @ numberText (the (birthdayYear c)) else []);
          notesText = (if truthyString (notes c) then '' | Notes: '' @ the (notes c) else [])
      in ''- '' @ name c @ '': '' @ birthday @ notesText)"

definition getUserId :: "env \<Rightarrow> store \<Rightarrow> string \<Rightarrow> error + uuid option" where
  "getUserId e st c =
     (case selectUserByClerkId e st c of
        Inl err \<Rightarrow> Inl err
      | Inr [] \<Rightarrow> Inr None
      | Inr (u # _) \<Rightarrow> Inr (Some (uid u)))"

text \<open>\<open>lines.join('\n')\<close>\<close>

fun joinLines :: "string list \<Rightarrow> string" where
  "joinLines [] = []"
| "joinLines [l] = l"
| "joinLines (l # m # ls) = l @ [CHR 0x0A] @ joinLines (m # ls)"

text \<open>
  The body of the tool's \<open>execute\<close>, closed over \<open>userId\<close>. \<open>Inl\<close> is an exception that
  reaches the caller of the tool; \<open>Inr\<close> is the text handed to the model.
\<close>

definition execute_getContacts :: "uuid option \<Rightarrow> env \<Rightarrow> store \<Rightarrow> error + string" where
  "execute_getContacts userId' e st =
     (if falsy userId' then Inr ''User not found. Please ensure you are logged in.''
      else case selectContactsOfUser e st (the userId') of
             Inl err \<Rightarrow> Inl err
           | Inr [] \<Rightarrow> Inr (''No contacts found. The user hasn'' @ [CHR 0x27] @
                              ''t added any birthdays yet.'')
           | Inr contacts \<Rightarrow>
               Inr (numberText (int (length contacts)) @ '' contact(s):'' @ [CHR 0x0A] @
                    joinLines (map (\<lambda>c. formatContact (rowObject c)) contacts)))"

record tool =
  description :: string
  inputSchema :: "string list"
  execute :: "env \<Rightarrow> store \<Rightarrow> error + string"

definition createTools :: "uuid option \<Rightarrow> (string \<times> tool) list" where
  "createTools userId' =
     [(''getContacts'',
       \<lparr>description = ''Get all contacts and their birthdays. Use when user asks about birthdays, contacts, upcoming celebrations, or specific people.'',
        inputSchema = [],
        execute = execute_getContacts userId'\<rparr>)]"

datatype stop_condition = stepCountIs nat

record streamText_call =
  model :: string
  system :: string
  messages :: "json list"
  stopWhen :: stop_condition
  tools :: "(string \<times> tool) list"

datatype chat_outcome = Replied response | Streamed streamText_call

text \<open>\<open>const { messages } = req.body\<close>: destructuring \<open>null\<close> or \<open>undefined\<close> throws.\<close>

fun destructureMessages :: "json \<Rightarrow> error + json option" where
  "destructureMessages JNull = Inl TypeError"
| "destructureMessages (JObj kv) = Inr (getProp kv ''messages'')"
| "destructureMessages _ = Inr None"

text \<open>
  \<open>SYSTEM_PROMPT\<close> (a constant text ending in the date of the module's load) and
  \<open>convertToModelMessages\<close> (the completion library's, which may throw) are parameters.
\<close>

definition chatWithAssistant :: "string \<Rightarrow> (json list \<Rightarrow> error + json list) \<Rightarrow> env \<Rightarrow> request \<Rightarrow>
    store \<Rightarrow> chat_outcome" where
  "chatWithAssistant SYSTEM_PROMPT convertToModelMessages e req st =
     (case destructureMessages (req_body req) of
        Inl _ \<Rightarrow> Replied internalServerError
      | Inr (Some (JArr msgs)) \<Rightarrow>
          (if falsy (auth_userId req) then Replied (Response 401 (ErrorBody ''Unauthorized''))
           else case getUserId e st (the (auth_userId req)) of
                  Inl _ \<Rightarrow> Replied internalServerError
                | Inr userId' \<Rightarrow>
                    (case convertToModelMessages msgs of
                       Inl _ \<Rightarrow> Replied internalServerError
                     | Inr modelMessages \<Rightarrow>
                         Streamed \<lparr>model = MODEL, system = SYSTEM_PROMPT,
                                   messages = modelMessages, stopWhen = stepCountIs 3,
                                   tools = createTools userId'\<rparr>))
      | Inr _ \<Rightarrow> Replied (Response 400 (ErrorBody ''Messages array is required'')))"

section \<open>The completion library's step loop\<close>

text \<open>
  \<open>streamText\<close> belongs to the completion library, not to this repository; what follows
  is its documented behaviour, as far as the stop condition and the tools go. A step is
  one invocation of the language model together with the execution of the tool calls it
  asks for. After a step the loop goes on when the step made tool calls and the stop
  condition does not hold of the steps so far; \<open>stepCountIs n\<close> holds when there are
  exactly \<open>n\<close> steps. The language model is any function of the steps so far.
\<close>

datatype model_turn = Answer string | CallTools "string list"

datatype step = AnswerStep string | ToolStep "(string \<times> (error + string)) list"

fun isStopConditionMet :: "stop_condition \<Rightarrow> step list \<Rightarrow> bool" where
  "isStopConditionMet (stepCountIs n) steps = (length steps = n)"

definition callTool :: "(string \<times> tool) list \<Rightarrow> env \<Rightarrow> store \<Rightarrow> string \<Rightarrow> error + string" where
  "callTool ts e st n =
     (case map_of ts n of None \<Rightarrow> Inl NoSuchToolError | Some t \<Rightarrow> execute t e st)"

fun runTurn :: "(string \<times> tool) list \<Rightarrow> env \<Rightarrow> store \<Rightarrow> model_turn \<Rightarrow> step" where
  "runTurn ts e st (Answer a) = AnswerStep a"
| "runTurn ts e st (CallTools ns) = ToolStep (map (\<lambda>n. (n, callTool ts e st n)) ns)"

fun madeToolCalls :: "step \<Rightarrow> bool" where
  "madeToolCalls (AnswerStep a) = False"
| "madeToolCalls (ToolStep rs) = (rs \<noteq> [])"

partial_function (option) streamText ::
    "streamText_call \<Rightarrow> (step list \<Rightarrow> model_turn) \<Rightarrow> env \<Rightarrow> store \<Rightarrow> step list \<Rightarrow> step list option" where
  "streamText call llm e st steps =
     (let s = runTurn (tools call) e st (llm steps); steps' = steps @ [s]
      in if madeToolCalls s \<and> \<not> isStopConditionMet (stopWhen call) steps'
         then streamText call llm e st steps'
         else Some steps')"

section \<open>The routes, and the stores the service can get into\<close>

text \<open>
  The routers of src/routes bind each path to one handler. The chat route is left out
  here: it answers with a stream and writes nothing to the store.
\<close>

datatype route =
    POST_users_sync "string \<Rightarrow> error + string option"
  | GET_contacts
  | GET_contacts_id
  | POST_contacts
  | PUT_contacts_id
  | DELETE_contacts_id

fun dispatch :: "route \<Rightarrow> env \<Rightarrow> request \<Rightarrow> store \<Rightarrow> response \<times> store" where
  "dispatch (POST_users_sync getUser) = syncUser getUser"
| "dispatch GET_contacts = getContacts"
| "dispatch GET_contacts_id = getContactById"
| "dispatch POST_contacts = createContact"
| "dispatch PUT_contacts_id = updateContact"
| "dispatch DELETE_contacts_id = deleteContact"

text \<open>The five routes of the contacts router.\<close>

fun contactsRoute :: "route \<Rightarrow> bool" where
  "contactsRoute (POST_users_sync getUser) = False"
| "contactsRoute r = True"

text \<open>The migration creates both tables empty; requests are then served one after another.\<close>

definition emptyStore :: store where
  "emptyStore = \<lparr>users = [], contactsBirthdays = []\<rparr>"

fun serve :: "(route \<times> env \<times> request) list \<Rightarrow> store \<Rightarrow> store" where
  "serve [] st = st"
| "serve ((r, e, req) # rest) st = serve rest (snd (dispatch r e req st))"

text \<open>What the schema and the validation promise of every stored row.\<close>

definition validContact :: "contact \<Rightarrow> bool" where
  "validContact c =
     (name c \<noteq> [] \<and> 1 \<le> birthdayMonth c \<and> birthdayMonth c \<le> 12 \<and>
      1 \<le> birthdayDay c \<and> birthdayDay c \<le> 31 \<and> integerColumn (birthdayYear c))"

definition consistent :: "store \<Rightarrow> bool" where
  "consistent st =
     (distinct (map uid (users st)) \<and> distinct (map clerkUserId (users st)) \<and>
      distinct (map cid (contactsBirthdays st)) \<and>
      list_all validContact (contactsBirthdays st) \<and>
      list_all (\<lambda>c. userId c \<in> uid ` set (users st)) (contactsBirthdays st))"

section \<open>The lines of the lookup tool's text\<close>



section \<open>Example data\<close>

text \<open>
  The reading of uuid texts in the examples is the one PostgreSQL documents: 32
  hexadecimal digits in either case, optionally in braces, with an optional hyphen after
  any group of four digits but the last; the value is spelt in lower case with hyphens
  after the 8th, 12th, 16th and 20th digit.
\<close>

definition hexDigit :: "char \<Rightarrow> char option" where
  "hexDigit c = map_of (zip ''0123456789abcdefABCDEF'' ''0123456789abcdefabcdef'') c"

definition hyphenAfter :: "bool list" where
  "hyphenAfter = [False, True, False, True, False, True, False, True,
                  False, True, False, True, False, True, False, False]"

fun uuidBytes :: "bool list \<Rightarrow> string \<Rightarrow> (string \<times> string) option" where
  "uuidBytes [] src = Some ([], src)"
| "uuidBytes (hyphen # hs) (a # b # src) =
     (case (hexDigit a, hexDigit b) of
        (Some x, Some y) \<Rightarrow>
          (case uuidBytes hs (if hyphen \<and> take 1 src = ''-'' then drop 1 src else src) of
             None \<Rightarrow> None
           | Some (ds, rest) \<Rightarrow> Some (x # y # ds, rest))
      | _ \<Rightarrow> None)"
| "uuidBytes (hyphen # hs) src = None"

definition uuidText :: "string \<Rightarrow> uuid" where
  "uuidText ds = take 8 ds @ ''-'' @ take 4 (drop 8 ds) @ ''-'' @ take 4 (drop 12 ds) @ ''-'' @
                 take 4 (drop 16 ds) @ ''-'' @ drop 20 ds"

definition uuid_in :: "string \<Rightarrow> uuid option" where
  "uuid_in src =
     (let braces = (take 1 src = ''{''); inner = (if braces then drop 1 src else src)
      in case uuidBytes hyphenAfter inner of
           None \<Rightarrow> None
         | Some (ds, rest) \<Rightarrow>
             if rest = (if braces then ''}'' else []) then Some (uuidText ds) else None)"

definition userA :: user where
  "userA = \<lparr>uid = ''aaaaaaaa-aaaa-4aaa-8aaa-aaaaaaaaaaaa'', clerkUserId = ''clerk_a'', email = Some ''a@example.org'',
             u_createdAt = Some 1, u_updatedAt = Some 1\<rparr>"

definition userB :: user where
  "userB = \<lparr>uid = ''bbbbbbbb-bbbb-4bbb-8bbb-bbbbbbbbbbbb'', clerkUserId = ''clerk_b'', email = None,
             u_createdAt = Some 2, u_updatedAt = Some 2\<rparr>"

definition ada :: contact where
  "ada = \<lparr>cid = ''11111111-1111-4111-8111-111111111111'', userId = ''aaaaaaaa-aaaa-4aaa-8aaa-aaaaaaaaaaaa'', name = ''Ada'', birthdayYear = Some 1815,
           birthdayMonth = 12, birthdayDay = 10, createdAt = Some 3, updatedAt = Some 3\<rparr>"

definition exampleStore :: store where
  "exampleStore = \<lparr>users = [userA, userB], contactsBirthdays = [ada]\<rparr>"

definition exampleEnv :: env where
  "exampleEnv = \<lparr>storeUp = True, now = 7, randomUuid = ''22222222-2222-4222-8222-222222222222'',
        uuidIn = uuid_in\<rparr>"

text \<open>Three requests that lead from the empty store to \<open>exampleStore\<close>.\<close>

definition exampleRequests :: "(route \<times> env \<times> request) list" where
  "exampleRequests =
     [(POST_users_sync (\<lambda>i. Inr (Some ''a@example.org'')),
       \<lparr>storeUp = True, now = 1, randomUuid = ''aaaaaaaa-aaaa-4aaa-8aaa-aaaaaaaaaaaa'',
        uuidIn = uuid_in\<rparr>,
       \<lparr>auth_userId = Some ''clerk_a'', params_id = [], req_body = JObj []\<rparr>),
      (POST_users_sync (\<lambda>i. Inr None),
       \<lparr>storeUp = True, now = 2, randomUuid = ''bbbbbbbb-bbbb-4bbb-8bbb-bbbbbbbbbbbb'',
        uuidIn = uuid_in\<rparr>,
       \<lparr>auth_userId = Some ''clerk_b'', params_id = [], req_body = JObj []\<rparr>),
      (POST_contacts,
       \<lparr>storeUp = True, now = 3, randomUuid = ''11111111-1111-4111-8111-111111111111'',
        uuidIn = uuid_in\<rparr>,
       \<lparr>auth_userId = Some ''clerk_a'', params_id = [],
        req_body = JObj [(''name'', JStr ''Ada''), (''birthdayMonth'', JNum 12),
                         (''birthdayDay'', JNum 10), (''birthdayYear'', JNum 1815)]\<rparr>)]"




text \<open>A request of the second example user for the first one's contact.\<close>

definition foreignRequest :: "json \<Rightarrow> request" where
  "foreignRequest b = \<lparr>auth_userId = Some ''clerk_b'', params_id = ''11111111-1111-4111-8111-111111111111'', req_body = b\<rparr>"

text \<open>A request under a verified identity that has never been synced.\<close>

definition strangerRequest :: "json \<Rightarrow> request" where
  "strangerRequest b = \<lparr>auth_userId = Some ''clerk_c'', params_id = ''11111111-1111-4111-8111-111111111111'', req_body = b\<rparr>"

text \<open>A create request of the first example user.\<close>

definition createRequest :: "json \<Rightarrow> request" where
  "createRequest b = \<lparr>auth_userId = Some ''clerk_a'', params_id = [], req_body = b\<rparr>"

text \<open>
  Bodies for a create: the 31st of February, the same with a year in quotes, the same
  with a year of \<open>2^31\<close>, and the same under a name that ends in the character of code 0
  (\<open>"Bob\u0000"\<close> in the request).
\<close>

definition endsInNul :: "(string \<times> json) list" where
  "endsInNul = [(''name'', JStr (''Bob'' @ [CHR 0x00])), (''birthdayMonth'', JNum 2),
                (''birthdayDay'', JNum 31)]"

definition distantYear :: "(string \<times> json) list" where
  "distantYear = [(''name'', JStr ''Bob''), (''birthdayMonth'', JNum 2), (''birthdayDay'', JNum 31),
                  (''birthdayYear'', JNum 2147483648)]"

definition february31 :: "(string \<times> json) list" where
  "february31 = [(''name'', JStr ''Bob''), (''birthdayMonth'', JNum 2), (''birthdayDay'', JNum 31)]"

definition quotedYear :: "(string \<times> json) list" where
  "quotedYear = [(''name'', JStr ''Bob''), (''birthdayMonth'', JNum 2), (''birthdayDay'', JNum 31),
                 (''birthdayYear'', JStr ''1990'')]"

text \<open>A second sync of the first example user, whose address has changed meanwhile.\<close>

definition syncRequest :: request where
  "syncRequest = \<lparr>auth_userId = Some ''clerk_a'', params_id = [], req_body = JObj []\<rparr>"

definition movedUser :: "string \<Rightarrow> error + string option" where
  "movedUser i = Inr (Some ''ada@example.org'')"

text \<open>A request of the first example user for her own contact.\<close>

definition ownRequest :: "json \<Rightarrow> request" where
  "ownRequest b = \<lparr>auth_userId = Some ''clerk_a'', params_id = ''11111111-1111-4111-8111-111111111111'', req_body = b\<rparr>"

text \<open>A chat request, given the caller's identity and the members of the body.\<close>

definition chatRequest :: "string option \<Rightarrow> (string \<times> json) list \<Rightarrow> request" where
  "chatRequest who kv = \<lparr>auth_userId = who, params_id = [], req_body = JObj kv\<rparr>"

text \<open>A language model that asks for the lookup tool at every step.\<close>

definition greedyModel :: "step list \<Rightarrow> model_turn" where
  "greedyModel steps = CallTools [''getContacts'']"

definition adaCall :: streamText_call where
  "adaCall = \<lparr>model = MODEL, system = [], messages = [JStr ''hello''],
              stopWhen = stepCountIs 3, tools = createTools (Some ''aaaaaaaa-aaaa-4aaa-8aaa-aaaaaaaaaaaa'')\<rparr>"

text \<open>The step that results when the lookup tool is called for the first example user.\<close>

definition adaStep :: step where
  "adaStep = ToolStep [(''getContacts'',
     Inr (''1 contact(s):'' @ [CHR 0x0A] @ ''- Ada: December 10, 1815''))]"

section \<open>Validation: what an accepted body looks like\<close>

lemma query_Inr [simp]: "(query e r = Inr x) = (storeUp e \<and> x = r)"
  by (auto simp: query_def)

lemma query_Inl [simp]: "(query e r = Inl x) = (\<not> storeUp e \<and> x = StoreError)"
  by (auto simp: query_def)

lemma zStringMin1_Inr: "zStringMin1 msg v = Inr s \<Longrightarrow> v = Some (JStr s) \<and> s \<noteq> []"
  by (cases "(msg, v)" rule: zStringMin1.cases) (auto split: if_splits)

lemma zIntMinMax_Inr:
  "zIntMinMax lo hi msg v = Inr i \<Longrightarrow> v = Some (JNum (of_int i)) \<and> lo \<le> i \<and> i \<le> hi"
  apply (cases "(lo, hi, msg, v)" rule: zIntMinMax.cases)
   apply (auto simp: numberChecks_def isInteger_def split: if_splits)
  done

lemma zIntMinMax_ok:
  "lo \<le> i \<Longrightarrow> i \<le> hi \<Longrightarrow> zIntMinMax lo hi msg (Some (JNum (of_int i))) = Inr i"
  by (simp add: numberChecks_def isInteger_def)

lemma createContactSchema_Inr:
  assumes "createContactSchema b = Inr d"
  shows "new_name d \<noteq> [] \<and> 1 \<le> new_birthdayMonth d \<and> new_birthdayMonth d \<le> 12 \<and>
         1 \<le> new_birthdayDay d \<and> new_birthdayDay d \<le> 31"
  using assms
  by (auto simp: createContactSchema_def Let_def split: json.splits sum.splits
      dest!: zStringMin1_Inr zIntMinMax_Inr)

lemma optional_Inr:
  "optional p v = Inr r \<Longrightarrow> (v = None \<and> r = None) \<or> (\<exists>x. v \<noteq> None \<and> p v = Inr x \<and> r = Some x)"
  by (cases "(p, v)" rule: optional.cases) (auto split: sum.splits)

lemma updateContactSchema_Inr:
  assumes "updateContactSchema b = Inr d"
  shows "(\<forall>n. set_name d = Some n \<longrightarrow> n \<noteq> []) \<and>
         (\<forall>m. set_birthdayMonth d = Some m \<longrightarrow> 1 \<le> m \<and> m \<le> 12) \<and>
         (\<forall>m. set_birthdayDay d = Some m \<longrightarrow> 1 \<le> m \<and> m \<le> 31)"
  using assms
  by (auto simp: updateContactSchema_def Let_def split: json.splits sum.splits if_splits
      dest!: optional_Inr zStringMin1_Inr zIntMinMax_Inr)

section \<open>Every store the service gets into is consistent\<close>

lemma take1_filter_Cons:
  assumes "take 1 (filter P xs) = u # r"
  shows "u \<in> set xs \<and> P u \<and> r = [] \<and> (\<exists>ys. filter P xs = u # ys)"
proof (cases "filter P xs")
  case Nil
  with assms show ?thesis by simp
next
  case (Cons a as)
  with assms have "a = u" "r = []" by simp_all
  moreover from Cons have "a \<in> set (filter P xs)" by simp
  then have "a \<in> set xs" "P a" by simp_all
  ultimately show ?thesis using Cons by simp
qed

lemma take1_filter_Nil: "(take 1 (filter P xs) = []) = (\<forall>x\<in>set xs. \<not> P x)"
proof -
  have "(take 1 (filter P xs) = []) = (filter P xs = [])"
    by (cases "filter P xs") simp_all
  then show ?thesis by (simp add: filter_empty_conv)
qed

lemma getAuthenticatedUser_user:
  assumes "getAuthenticatedUser e req st = Inr (Inr u)"
  shows "storeUp e \<and> \<not> falsy (auth_userId req) \<and> u \<in> set (users st) \<and>
         clerkUserId u = the (auth_userId req)"
proof -
  let ?xs = "filter (\<lambda>u. clerkUserId u = the (auth_userId req)) (users st)"
  from assms have nf: "\<not> falsy (auth_userId req)" and up: "storeUp e"
    by (auto simp: getAuthenticatedUser_def selectUserByClerkId_def query_def
        split: if_splits sum.splits list.splits)
  from assms nf up obtain r where "take 1 (filter (\<lambda>u. clerkUserId u = the (auth_userId req)) (users st)) = u # r"
    by (auto simp: getAuthenticatedUser_def selectUserByClerkId_def query_def split: list.splits)
  from take1_filter_Cons [OF this] nf up show ?thesis by simp
qed

lemma snd_getContacts [simp]: "snd (getContacts e req st) = st"
  by (simp add: getContacts_def split: sum.splits)

lemma snd_getContactById [simp]: "snd (getContactById e req st) = st"
  by (simp add: getContactById_def split: sum.splits list.splits)

lemma consistent_createContact:
  assumes "consistent st"
  shows "consistent (snd (createContact e req st))"
proof (cases "createContactSchema (req_body req)")
  case (Inl issues)
  then show ?thesis using assms by (simp add: createContact_def)
next
  case (Inr d)
  note d = createContactSchema_Inr [OF Inr]
  show ?thesis
  proof (cases "getAuthenticatedUser e req st")
    case (Inl err)
    then show ?thesis using assms Inr by (simp add: createContact_def)
  next
    case r: (Inr x)
    show ?thesis
    proof (cases x)
      case (Inl resp)
      then show ?thesis using assms Inr r by (simp add: createContact_def)
    next
      case u: (Inr userRecord)
      from r u have "userRecord \<in> set (users st)"
        using getAuthenticatedUser_user by blast
      then show ?thesis using assms Inr r u d
        by (auto simp: createContact_def insertContact_def consistent_def validContact_def Let_def)
    qed
  qed
qed

lemma cid_applyUpdate [simp]: "cid (applyUpdate t upd c) = cid c"
  and userId_applyUpdate [simp]: "userId (applyUpdate t upd c) = userId c"
  and createdAt_applyUpdate [simp]: "createdAt (applyUpdate t upd c) = createdAt c"
  and updatedAt_applyUpdate [simp]: "updatedAt (applyUpdate t upd c) = Some t"
  by (simp_all add: applyUpdate_def)

lemma validContact_applyUpdate:
  assumes "updateContactSchema b = Inr upd" "validContact c"
    and "integerColumn (case set_birthdayYear upd of None \<Rightarrow> None | Some y \<Rightarrow> y)"
  shows "validContact (applyUpdate t upd c)"
  using updateContactSchema_Inr [OF assms(1)] assms(2,3)
  by (auto simp: validContact_def applyUpdate_def split: option.splits)

lemma map_comp_same: "(\<And>x. f (g x) = f x) \<Longrightarrow> map (f \<circ> g) xs = map f xs"
  by (induction xs) simp_all

lemma consistent_updateRows:
  assumes "consistent st" "updateContactSchema b = Inr upd"
    and "integerColumn (case set_birthdayYear upd of None \<Rightarrow> None | Some y \<Rightarrow> y)"
  shows "consistent (st\<lparr>contactsBirthdays :=
           map (\<lambda>c. if owned i u c then applyUpdate t upd c else c) (contactsBirthdays st)\<rparr>)"
proof -
  let ?f = "\<lambda>c. if owned i u c then applyUpdate t upd c else c"
  let ?st' = "st\<lparr>contactsBirthdays := map ?f (contactsBirthdays st)\<rparr>"
  have us: "users ?st' = users st"
    and cs: "contactsBirthdays ?st' = map ?f (contactsBirthdays st)"
    by simp_all
  from assms(1) have d1: "distinct (map uid (users st))"
    and d2: "distinct (map clerkUserId (users st))"
    and d3: "distinct (map cid (contactsBirthdays st))"
    and v: "list_all validContact (contactsBirthdays st)"
    and fk: "list_all (\<lambda>c. userId c \<in> uid ` set (users st)) (contactsBirthdays st)"
    by (simp_all add: consistent_def)
  have m: "map (cid \<circ> ?f) (contactsBirthdays st) = map cid (contactsBirthdays st)"
    by (rule map_comp_same) simp
  from d3 have d3': "distinct (map cid (map ?f (contactsBirthdays st)))"
    by (simp only: map_map m)
  from v have v': "list_all validContact (map ?f (contactsBirthdays st))"
    using validContact_applyUpdate [OF assms(2) _ assms(3)] by (auto simp: list_all_iff)
  from fk have fk': "list_all (\<lambda>c. userId c \<in> uid ` set (users st)) (map ?f (contactsBirthdays st))"
    by (auto simp: list_all_iff)
  show ?thesis
    unfolding consistent_def us cs by (intro conjI d1 d2 d3' v' fk')
qed

lemma updateContactRows_Inr:
  assumes "updateContactRows e st i u upd = Inr (rows, st')"
  shows "storeUp e \<and>
         integerColumn (case set_birthdayYear upd of None \<Rightarrow> None | Some y \<Rightarrow> y) \<and>
         (\<exists>v. uuidIn e i = Some v \<and>
            rows = map (applyUpdate (now e) upd) (filter (owned v u) (contactsBirthdays st)) \<and>
            st' = st\<lparr>contactsBirthdays :=
                      map (\<lambda>c. if owned v u c then applyUpdate (now e) upd c else c)
                        (contactsBirthdays st)\<rparr>)"
  using assms by (auto simp: updateContactRows_def split: if_splits option.splits)

lemma consistent_updateContact:
  assumes "consistent st"
  shows "consistent (snd (updateContact e req st))"
proof (cases "updateContactSchema (req_body req)")
  case (Inl issues)
  then show ?thesis using assms by (simp add: updateContact_def)
next
  case (Inr upd)
  have rows: "consistent st'"
    if "updateContactRows e st i u upd = Inr (rows, st')" for i u rows st'
    using updateContactRows_Inr [OF that] consistent_updateRows [OF assms Inr] by auto
  show ?thesis
    using assms Inr rows
    by (auto simp: updateContact_def split: sum.splits list.splits)
qed

lemma consistent_deleteContact:
  assumes "consistent st"
  shows "consistent (snd (deleteContact e req st))"
proof -
  have "consistent (st\<lparr>contactsBirthdays := filter P (contactsBirthdays st)\<rparr>)" for P
    using assms by (auto simp: consistent_def distinct_map_filter list_all_iff)
  then show ?thesis using assms
    by (auto simp: deleteContact_def deleteContactRows_def
        split: sum.splits list.splits if_splits option.splits)
qed

lemma consistent_upsertUser:
  assumes "consistent st" "upsertUser e st c em = Inr st'"
  shows "consistent st'"
proof (cases "c \<in> clerkUserId ` set (users st)")
  case True
  let ?f = "\<lambda>u. if clerkUserId u = c
                 then u\<lparr>email := (case em of None \<Rightarrow> email u | Some a \<Rightarrow> Some a),
                        u_updatedAt := Some (now e)\<rparr>
                 else u"
  from True assms(2) have st': "st' = st\<lparr>users := map ?f (users st)\<rparr>"
    by (auto simp: upsertUser_def split: if_splits)
  have us: "users st' = map ?f (users st)"
    and cs: "contactsBirthdays st' = contactsBirthdays st"
    by (simp_all add: st')
  from assms(1) have d1: "distinct (map uid (users st))"
    and d2: "distinct (map clerkUserId (users st))"
    and d3: "distinct (map cid (contactsBirthdays st))"
    and v: "list_all validContact (contactsBirthdays st)"
    and fk: "list_all (\<lambda>c. userId c \<in> uid ` set (users st)) (contactsBirthdays st)"
    by (simp_all add: consistent_def)
  have m1: "map (uid \<circ> ?f) (users st) = map uid (users st)"
    by (rule map_comp_same) simp
  have m2: "map (clerkUserId \<circ> ?f) (users st) = map clerkUserId (users st)"
    by (rule map_comp_same) simp
  from d1 have d1': "distinct (map uid (map ?f (users st)))"
    by (simp only: map_map m1)
  from d2 have d2': "distinct (map clerkUserId (map ?f (users st)))"
    by (simp only: map_map m2)
  have "map uid (map ?f (users st)) = map uid (users st)"
    by (simp only: map_map m1)
  then have "uid ` set (map ?f (users st)) = uid ` set (users st)"
    by (metis set_map)
  with fk have fk': "list_all (\<lambda>c. userId c \<in> uid ` set (map ?f (users st))) (contactsBirthdays st)"
    by (simp only:)
  show ?thesis
    unfolding consistent_def us cs by (intro conjI d1' d2' d3 v fk')
next
  case False
  with assms(2) have "randomUuid e \<notin> uid ` set (users st)"
    and st': "st' = st\<lparr>users := users st @
                  [\<lparr>uid = randomUuid e, clerkUserId = c, email = em,
                    u_createdAt = Some (now e), u_updatedAt = Some (now e)\<rparr>]\<rparr>"
    by (auto simp: upsertUser_def split: if_splits)
  with False assms(1) show ?thesis
    by (auto simp: consistent_def list_all_iff)
qed

lemma consistent_syncUser:
  assumes "consistent st"
  shows "consistent (snd (syncUser g e req st))"
  using assms consistent_upsertUser [OF assms]
  by (auto simp: syncUser_def split: sum.splits)

lemma consistent_dispatch: "consistent st \<Longrightarrow> consistent (snd (dispatch r e req st))"
  by (cases r)
    (simp_all add: consistent_syncUser consistent_createContact consistent_updateContact
      consistent_deleteContact)

lemma consistent_serve: "consistent st \<Longrightarrow> consistent (serve evs st)"
  by (induction evs arbitrary: st) (auto simp: consistent_dispatch)

lemma consistent_emptyStore: "consistent emptyStore"
  by (simp add: consistent_def emptyStore_def)

section \<open>The lookup tool\<close>







lemma month_cases:
  "1 \<le> (m::int) \<Longrightarrow> m \<le> 12 \<Longrightarrow>
   m = 1 \<or> m = 2 \<or> m = 3 \<or> m = 4 \<or> m = 5 \<or> m = 6 \<or> m = 7 \<or> m = 8 \<or> m = 9 \<or> m = 10 \<or> m = 11 \<or> m = 12"
  by arith



lemma formatContact_row:
  "formatContact (rowObject c) =
     ''- '' @ name c @ '': '' @ elementText MONTH_NAMES (birthdayMonth c - 1) @ '' '' @
     numberText (birthdayDay c) @
     (case birthdayYear c of None \<Rightarrow> [] | Some y \<Rightarrow> if y = 0 then [] else '', '' @ numberText y)"
  by (simp add: formatContact_def rowObject_def truthyNumber_def truthyString_def
      split: option.splits)


lemma serve_exampleRequests: "serve exampleRequests emptyStore = exampleStore"
  by (simp add: exampleRequests_def emptyStore_def exampleStore_def syncUser_def falsy_def
      upsertUser_def createContact_def createContactSchema_def getProp_def numberChecks_def
      isInteger_def getAuthenticatedUser_def selectUserByClerkId_def query_def insertContact_def
      orNull_def integerColumn_def textColumn_def userA_def userB_def ada_def Let_def)













text \<open>
  Claim C3. Without a resolved user id the tool's \<open>execute\<close> returns the text that the
  user is not recognised, and touches no table. With a user id whose owner has no
  contact (and a store that answers) it returns the text that no birthdays have been
  added yet. Both are results, not exceptions, and neither is empty.
\<close>

theorem execute_getContacts_sentinels:
  "execute_getContacts None e st = Inr ''User not found. Please ensure you are logged in.'' \<and>
   (storeUp e \<and> u \<noteq> [] \<and> (\<forall>c \<in> set (contactsBirthdays st). userId c \<noteq> u) \<longrightarrow>
      execute_getContacts (Some u) e st =
        Inr (''No contacts found. The user hasn'' @ [CHR 0x27] @ ''t added any birthdays yet.''))"
proof -
  have "filter (\<lambda>c. userId c = u) (contactsBirthdays st) = []"
    if "\<forall>c \<in> set (contactsBirthdays st). userId c \<noteq> u"
    using that by (simp add: filter_empty_conv)
  then show ?thesis
    by (simp add: execute_getContacts_def falsy_def selectContactsOfUser_def query_def)
qed

theorem execute_getContacts_sentinels_witness:
  "execute_getContacts None exampleEnv exampleStore =
     Inr ''User not found. Please ensure you are logged in.'' \<and>
   execute_getContacts (Some ''bbbbbbbb-bbbb-4bbb-8bbb-bbbbbbbbbbbb'') exampleEnv exampleStore =
     Inr (''No contacts found. The user hasn'' @ [CHR 0x27] @ ''t added any birthdays yet.'')"
proof -
  have h: "storeUp exampleEnv \<and> ''bbbbbbbb-bbbb-4bbb-8bbb-bbbbbbbbbbbb'' \<noteq> [] \<and>
           (\<forall>c \<in> set (contactsBirthdays exampleStore). userId c \<noteq> ''bbbbbbbb-bbbb-4bbb-8bbb-bbbbbbbbbbbb'')"
    by (simp add: exampleEnv_def exampleStore_def ada_def)
  from execute_getContacts_sentinels [of exampleEnv exampleStore "''bbbbbbbb-bbbb-4bbb-8bbb-bbbbbbbbbbbb''"] h
  show ?thesis by blast
qed

section \<open>Contacts of other users\<close>

lemma getAuthenticatedUser_params_id [simp]:
  "getAuthenticatedUser e (req\<lparr>params_id := j\<rparr>) st = getAuthenticatedUser e req st"
  by (simp add: getAuthenticatedUser_def)

lemma selectContact_none:
  assumes "storeUp e" "uuidIn e i = Some v"
    and "\<forall>c \<in> set (contactsBirthdays st). \<not> owned v u c"
  shows "selectContact e st i u = Inr []"
  using assms by (simp add: selectContact_def take1_filter_Nil)

lemma not_found_handlers:
  assumes auth: "getAuthenticatedUser e req st = Inr (Inr caller)"
    and read: "uuidIn e (params_id req) = Some v"
    and none: "\<forall>c \<in> set (contactsBirthdays st). \<not> owned v (uid caller) c"
  shows "getContactById e req st = (Response 404 (ErrorBody ''Contact not found''), st)"
    and "deleteContact e req st = (Response 404 (ErrorBody ''Contact not found''), st)"
    and "updateContact e req st =
           (case updateContactSchema (req_body req) of
              Inl issues \<Rightarrow> (Response 400 (ErrorsBody (formatZodError issues)), st)
            | Inr upd \<Rightarrow> (Response 404 (ErrorBody ''Contact not found''), st))"
proof -
  from getAuthenticatedUser_user [OF auth] have up: "storeUp e" by simp
  note sel = selectContact_none [OF up read none]
  show "getContactById e req st = (Response 404 (ErrorBody ''Contact not found''), st)"
    by (simp add: getContactById_def auth sel)
  show "deleteContact e req st = (Response 404 (ErrorBody ''Contact not found''), st)"
    by (simp add: deleteContact_def auth sel)
  show "updateContact e req st =
           (case updateContactSchema (req_body req) of
              Inl issues \<Rightarrow> (Response 400 (ErrorsBody (formatZodError issues)), st)
            | Inr upd \<Rightarrow> (Response 404 (ErrorBody ''Contact not found''), st))"
    by (simp add: updateContact_def auth sel split: sum.splits)
qed

lemma distinct_cid_unique:
  assumes "distinct (map cid cs)" "c \<in> set cs" "c' \<in> set cs" "cid c = cid c'"
  shows "c = c'"
  using assms by (meson distinct_map inj_onD)

text \<open>
  Claim C1, as the code has it. Let B be a caller with a User row and let the id of the
  request be a spelling of the uuid of a contact of another user A. Then GET and DELETE
  answer 404 with \<open>{"error": "Contact not found"}\<close>, and so does PUT when its body passes
  validation; a PUT whose body fails validation is answered 400 with the validation
  errors. In each case the response, and the store afterwards, are those of the same
  request with an id that the store reads as a uuid and that names no contact at all;
  the store is unchanged, so nothing of A's contact is returned or changed, and no
  response is of the permission-denied kind. Nothing is said of an id that the store
  does not read as a uuid.
\<close>

theorem foreign_contact_not_found:
  assumes caller: "getAuthenticatedUser e req st = Inr (Inr userB')"
    and key: "distinct (map cid (contactsBirthdays st))"
    and theirs: "c \<in> set (contactsBirthdays st)" "uuidIn e (params_id req) = Some (cid c)"
      "userId c \<noteq> uid userB'"
    and absent: "uuidIn e j = Some v" "v \<notin> cid ` set (contactsBirthdays st)"
  shows "getContactById e req st = (Response 404 (ErrorBody ''Contact not found''), st) \<and>
         getContactById e (req\<lparr>params_id := j\<rparr>) st = getContactById e req st \<and>
         deleteContact e req st = (Response 404 (ErrorBody ''Contact not found''), st) \<and>
         deleteContact e (req\<lparr>params_id := j\<rparr>) st = deleteContact e req st \<and>
         updateContact e (req\<lparr>params_id := j\<rparr>) st = updateContact e req st \<and>
         snd (updateContact e req st) = st \<and>
         (\<forall>upd. updateContactSchema (req_body req) = Inr upd \<longrightarrow>
            fst (updateContact e req st) = Response 404 (ErrorBody ''Contact not found'')) \<and>
         (\<forall>issues. updateContactSchema (req_body req) = Inl issues \<longrightarrow>
            fst (updateContact e req st) = Response 400 (ErrorsBody (formatZodError issues)))"
proof -
  have none: "\<forall>c' \<in> set (contactsBirthdays st). \<not> owned (cid c) (uid userB') c'"
  proof
    fix c' assume c': "c' \<in> set (contactsBirthdays st)"
    show "\<not> owned (cid c) (uid userB') c'"
    proof
      assume "owned (cid c) (uid userB') c'"
      then have "cid c' = cid c" "userId c' = uid userB'"
        by (simp_all add: owned_def)
      with distinct_cid_unique [OF key c' theirs(1)] theirs(3) show False by simp
    qed
  qed
  let ?req' = "req\<lparr>params_id := j\<rparr>"
  have caller': "getAuthenticatedUser e ?req' st = Inr (Inr userB')"
    using caller by simp
  have read': "uuidIn e (params_id ?req') = Some v"
    using absent(1) by simp
  have none': "\<forall>c' \<in> set (contactsBirthdays st). \<not> owned v (uid userB') c'"
    using absent(2) by (auto simp: owned_def)
  note a = not_found_handlers [OF caller theirs(2) none]
  note b = not_found_handlers [OF caller' read' none']
  have body: "req_body ?req' = req_body req" by simp
  show ?thesis
    unfolding a b body by (simp split: sum.splits)
qed

lemma foreignRequest_caller:
  "getAuthenticatedUser exampleEnv (foreignRequest b) exampleStore = Inr (Inr userB)"
  by (simp add: getAuthenticatedUser_def foreignRequest_def falsy_def selectUserByClerkId_def query_def
      exampleEnv_def exampleStore_def userA_def userB_def)

theorem foreign_contact_not_found_witness:
  "getAuthenticatedUser exampleEnv (foreignRequest (JObj [(''name'', JStr ''Eve'')])) exampleStore =
     Inr (Inr userB) \<and>
   distinct (map cid (contactsBirthdays exampleStore)) \<and>
   ada \<in> set (contactsBirthdays exampleStore) \<and>
   uuidIn exampleEnv (params_id (foreignRequest (JObj [(''name'', JStr ''Eve'')]))) =
     Some (cid ada) \<and>
   userId ada \<noteq> uid userB \<and>
   uuidIn exampleEnv ''{99999999-9999-4999-8999-99999999999F}'' =
     Some ''99999999-9999-4999-8999-99999999999f'' \<and>
   ''99999999-9999-4999-8999-99999999999f'' \<notin> cid ` set (contactsBirthdays exampleStore) \<and>
   getContactById exampleEnv (foreignRequest (JObj [(''name'', JStr ''Eve'')])) exampleStore =
     (Response 404 (ErrorBody ''Contact not found''), exampleStore) \<and>
   deleteContact exampleEnv (foreignRequest (JObj [(''name'', JStr ''Eve'')])) exampleStore =
     (Response 404 (ErrorBody ''Contact not found''), exampleStore) \<and>
   updateContact exampleEnv (foreignRequest (JObj [(''name'', JStr ''Eve'')])) exampleStore =
     (Response 404 (ErrorBody ''Contact not found''), exampleStore)"
proof -
  let ?req = "foreignRequest (JObj [(''name'', JStr ''Eve'')])"
  have h1: "getAuthenticatedUser exampleEnv ?req exampleStore = Inr (Inr userB)"
    by (rule foreignRequest_caller)
  have h2: "distinct (map cid (contactsBirthdays exampleStore))"
    by (simp add: exampleStore_def)
  have h3: "ada \<in> set (contactsBirthdays exampleStore)"
    by (simp add: exampleStore_def)
  have h4: "uuidIn exampleEnv (params_id ?req) = Some (cid ada)"
    by (simp add: ada_def foreignRequest_def exampleEnv_def uuid_in_def hyphenAfter_def
        hexDigit_def uuidText_def)
  have h5: "userId ada \<noteq> uid userB"
    by (simp add: ada_def userB_def)
  have h6: "uuidIn exampleEnv ''{99999999-9999-4999-8999-99999999999F}'' =
      Some ''99999999-9999-4999-8999-99999999999f''"
    by (simp add: exampleEnv_def uuid_in_def hyphenAfter_def hexDigit_def uuidText_def)
  have h7: "''99999999-9999-4999-8999-99999999999f'' \<notin> cid ` set (contactsBirthdays exampleStore)"
    by (simp add: exampleStore_def ada_def)
  have valid: "updateContactSchema (req_body ?req) =
      Inr \<lparr>set_name = Some ''Eve'', set_birthdayMonth = None, set_birthdayDay = None,
           set_birthdayYear = None\<rparr>"
    by (simp add: foreignRequest_def updateContactSchema_def getProp_def suppliedKeys_def)
  note t = foreign_contact_not_found [OF h1 h2 h3 h4 h5 h6 h7]
  from t have g: "getContactById exampleEnv ?req exampleStore =
      (Response 404 (ErrorBody ''Contact not found''), exampleStore)"
    by (rule conjunct1)
  from t have d: "deleteContact exampleEnv ?req exampleStore =
      (Response 404 (ErrorBody ''Contact not found''), exampleStore)"
    by blast
  from t valid have "snd (updateContact exampleEnv ?req exampleStore) = exampleStore"
    and "fst (updateContact exampleEnv ?req exampleStore) = Response 404 (ErrorBody ''Contact not found'')"
    by blast+
  then have u: "updateContact exampleEnv ?req exampleStore =
      (Response 404 (ErrorBody ''Contact not found''), exampleStore)"
    by (simp add: prod_eq_iff)
  from h1 h2 h3 h4 h5 h6 h7 g d u show ?thesis by (intro conjI)
qed

text \<open>
  The claim as stated promises 404 for every PUT on another user's contact, and for
  every id that names no contact. A PUT with the empty object as body is answered 400,
  since validation comes first. And an id that is no uuid at all names no contact, but
  the store throws on it and the answer is 500, while the other user's contact gets 404.
\<close>

theorem foreign_contact_put_counterexample:
  "userB \<in> set (users exampleStore) \<and> ada \<in> set (contactsBirthdays exampleStore) \<and>
   userId ada = uid userA \<and> uid userA \<noteq> uid userB \<and>
   cid ada = params_id (foreignRequest (JObj [])) \<and>
   updateContact exampleEnv (foreignRequest (JObj [])) exampleStore =
     (Response 400
        (ErrorsBody [\<lparr>field = [],
                      message = Message ''At least one field must be provided for update''\<rparr>]),
      exampleStore) \<and>
   fst (updateContact exampleEnv (foreignRequest (JObj [])) exampleStore) \<noteq>
     Response 404 (ErrorBody ''Contact not found'') \<and>
   ''not-a-uuid'' \<notin> cid ` set (contactsBirthdays exampleStore) \<and>
   getContactById exampleEnv (foreignRequest (JObj [])) exampleStore =
     (Response 404 (ErrorBody ''Contact not found''), exampleStore) \<and>
   getContactById exampleEnv ((foreignRequest (JObj []))\<lparr>params_id := ''not-a-uuid''\<rparr>)
       exampleStore =
     (Response 500 (ErrorBody ''Internal server error''), exampleStore)"
proof -
  have put: "updateContact exampleEnv (foreignRequest (JObj [])) exampleStore =
     (Response 400
        (ErrorsBody [\<lparr>field = [],
                      message = Message ''At least one field must be provided for update''\<rparr>]),
      exampleStore)"
    by (simp add: updateContact_def updateContactSchema_def foreignRequest_def getProp_def
        suppliedKeys_def formatZodError_def)
  have rows: "userB \<in> set (users exampleStore) \<and> ada \<in> set (contactsBirthdays exampleStore) \<and>
      userId ada = uid userA \<and> uid userA \<noteq> uid userB \<and>
      cid ada = params_id (foreignRequest (JObj [])) \<and>
      ''not-a-uuid'' \<notin> cid ` set (contactsBirthdays exampleStore)"
    by (simp add: foreignRequest_def exampleStore_def ada_def userA_def userB_def)
  have up: "storeUp exampleEnv" by (simp add: exampleEnv_def)
  have good: "uuidIn exampleEnv (params_id (foreignRequest (JObj []))) = Some (cid ada)"
    by (simp add: ada_def foreignRequest_def exampleEnv_def uuid_in_def hyphenAfter_def
        hexDigit_def uuidText_def)
  have bad: "uuidIn exampleEnv ''not-a-uuid'' = None"
    by (simp add: exampleEnv_def uuid_in_def hyphenAfter_def hexDigit_def)
  have none: "filter (owned (cid ada) (uid userB)) (contactsBirthdays exampleStore) = []"
    by (simp add: owned_def exampleStore_def ada_def userB_def)
  have get: "getContactById exampleEnv (foreignRequest (JObj [])) exampleStore =
     (Response 404 (ErrorBody ''Contact not found''), exampleStore)"
    by (simp add: getContactById_def foreignRequest_caller selectContact_def up good none)
  have get': "getContactById exampleEnv ((foreignRequest (JObj []))\<lparr>params_id := ''not-a-uuid''\<rparr>)
       exampleStore =
     (Response 500 (ErrorBody ''Internal server error''), exampleStore)"
    by (simp add: getContactById_def foreignRequest_caller selectContact_def up bad
        internalServerError_def)
  from put rows get get' show ?thesis by simp
qed

section \<open>Callers without a User row\<close>

lemma unsynced_getAuthenticatedUser:
  assumes "storeUp e" "auth_userId req = Some i" "i \<noteq> []" "i \<notin> clerkUserId ` set (users st)"
  shows "getAuthenticatedUser e req st = Inr (Inl (Response 404 (ErrorBody ''User not found'')))"
proof -
  from assms(4) have "\<forall>u \<in> set (users st). \<not> clerkUserId u = i" by auto
  then have "take 1 (filter (\<lambda>u. clerkUserId u = i) (users st)) = []"
    by (simp only: take1_filter_Nil)
  with assms(1-3) show ?thesis
    by (simp add: getAuthenticatedUser_def falsy_def selectUserByClerkId_def query_def)
qed

text \<open>
  Claim C10, as the code has it. A request under a verified identity that has no User row
  is answered 404 with \<open>{"error": "User not found"}\<close> by list, get-by-id and delete, and
  by create and update when the body passes validation; create and update answer 400
  with the validation errors otherwise. On all five routes the store is left as it was
  and the response is the same whatever the contacts table holds.
\<close>

theorem unsynced_user_not_found:
  assumes "storeUp e" "auth_userId req = Some i" "i \<noteq> []" "i \<notin> clerkUserId ` set (users st)"
  shows "getContacts e req st = (Response 404 (ErrorBody ''User not found''), st) \<and>
         getContactById e req st = (Response 404 (ErrorBody ''User not found''), st) \<and>
         deleteContact e req st = (Response 404 (ErrorBody ''User not found''), st) \<and>
         (\<forall>d. createContactSchema (req_body req) = Inr d \<longrightarrow>
            createContact e req st = (Response 404 (ErrorBody ''User not found''), st)) \<and>
         (\<forall>issues. createContactSchema (req_body req) = Inl issues \<longrightarrow>
            createContact e req st = (Response 400 (ErrorsBody (formatZodError issues)), st)) \<and>
         (\<forall>upd. updateContactSchema (req_body req) = Inr upd \<longrightarrow>
            updateContact e req st = (Response 404 (ErrorBody ''User not found''), st)) \<and>
         (\<forall>issues. updateContactSchema (req_body req) = Inl issues \<longrightarrow>
            updateContact e req st = (Response 400 (ErrorsBody (formatZodError issues)), st)) \<and>
         (\<forall>r cs. contactsRoute r \<longrightarrow>
            dispatch r e req (st\<lparr>contactsBirthdays := cs\<rparr>) =
              (fst (dispatch r e req st), st\<lparr>contactsBirthdays := cs\<rparr>))"
proof -
  have auth: "getAuthenticatedUser e req st' = Inr (Inl (Response 404 (ErrorBody ''User not found'')))"
    if "users st' = users st" for st'
    using unsynced_getAuthenticatedUser [of e req i st'] assms that by simp
  have g: "getContacts e req st' = (Response 404 (ErrorBody ''User not found''), st')"
    if "users st' = users st" for st'
    by (simp add: getContacts_def auth [OF that])
  have gi: "getContactById e req st' = (Response 404 (ErrorBody ''User not found''), st')"
    if "users st' = users st" for st'
    by (simp add: getContactById_def auth [OF that])
  have dl: "deleteContact e req st' = (Response 404 (ErrorBody ''User not found''), st')"
    if "users st' = users st" for st'
    by (simp add: deleteContact_def auth [OF that])
  have cr: "createContact e req st' =
      (case createContactSchema (req_body req) of
         Inl issues \<Rightarrow> (Response 400 (ErrorsBody (formatZodError issues)), st')
       | Inr d \<Rightarrow> (Response 404 (ErrorBody ''User not found''), st'))"
    if "users st' = users st" for st'
    by (simp add: createContact_def auth [OF that] split: sum.splits)
  have up: "updateContact e req st' =
      (case updateContactSchema (req_body req) of
         Inl issues \<Rightarrow> (Response 400 (ErrorsBody (formatZodError issues)), st')
       | Inr d \<Rightarrow> (Response 404 (ErrorBody ''User not found''), st'))"
    if "users st' = users st" for st'
    by (simp add: updateContact_def auth [OF that] split: sum.splits)
  have indep: "dispatch r e req (st\<lparr>contactsBirthdays := cs\<rparr>) =
      (fst (dispatch r e req st), st\<lparr>contactsBirthdays := cs\<rparr>)"
    if "contactsRoute r" for r cs
    using that by (cases r) (simp_all add: g gi dl cr up split: sum.splits)
  show ?thesis
    using g [of st] gi [of st] dl [of st] cr [of st] up [of st] indep by simp
qed

theorem unsynced_user_not_found_witness:
  "storeUp exampleEnv \<and> auth_userId (strangerRequest (JObj [(''name'', JStr ''Eve'')])) = Some ''clerk_c'' \<and>
   ''clerk_c'' \<noteq> [] \<and> ''clerk_c'' \<notin> clerkUserId ` set (users exampleStore) \<and>
   getContacts exampleEnv (strangerRequest (JObj [(''name'', JStr ''Eve'')])) exampleStore =
     (Response 404 (ErrorBody ''User not found''), exampleStore) \<and>
   updateContact exampleEnv (strangerRequest (JObj [(''name'', JStr ''Eve'')])) exampleStore =
     (Response 404 (ErrorBody ''User not found''), exampleStore)"
proof -
  let ?req = "strangerRequest (JObj [(''name'', JStr ''Eve'')])"
  have h1: "storeUp exampleEnv" by (simp add: exampleEnv_def)
  have h2: "auth_userId ?req = Some ''clerk_c''" by (simp add: strangerRequest_def)
  have h3: "''clerk_c'' \<noteq> []" by simp
  have h4: "''clerk_c'' \<notin> clerkUserId ` set (users exampleStore)"
    by (simp add: exampleStore_def userA_def userB_def)
  have valid: "updateContactSchema (req_body ?req) =
      Inr \<lparr>set_name = Some ''Eve'', set_birthdayMonth = None, set_birthdayDay = None,
           set_birthdayYear = None\<rparr>"
    by (simp add: strangerRequest_def updateContactSchema_def getProp_def suppliedKeys_def)
  note t = unsynced_user_not_found [OF h1 h2 h3 h4]
  from t have g: "getContacts exampleEnv ?req exampleStore =
      (Response 404 (ErrorBody ''User not found''), exampleStore)"
    by (rule conjunct1)
  from t valid have u: "updateContact exampleEnv ?req exampleStore =
      (Response 404 (ErrorBody ''User not found''), exampleStore)"
    by blast
  from h1 h2 h3 h4 g u show ?thesis by (intro conjI)
qed

text \<open>
  The claim as stated promises 404 on every contacts route. A create with the empty
  object as body is answered 400 for a caller without a User row too.
\<close>

theorem unsynced_user_create_counterexample:
  "auth_userId (strangerRequest (JObj [])) = Some ''clerk_c'' \<and>
   ''clerk_c'' \<notin> clerkUserId ` set (users exampleStore) \<and>
   createContact exampleEnv (strangerRequest (JObj [])) exampleStore =
     (Response 400
        (ErrorsBody [\<lparr>field = ''name'', message = LibraryMessage InvalidType\<rparr>,
                     \<lparr>field = ''birthdayMonth'', message = LibraryMessage InvalidType\<rparr>,
                     \<lparr>field = ''birthdayDay'', message = LibraryMessage InvalidType\<rparr>]),
      exampleStore) \<and>
   fst (createContact exampleEnv (strangerRequest (JObj [])) exampleStore) \<noteq>
     Response 404 (ErrorBody ''User not found'')"
  by (simp add: createContact_def createContactSchema_def strangerRequest_def getProp_def
      formatZodError_def issuesAt_def exampleStore_def userA_def userB_def)

section \<open>Creating a contact\<close>

lemma isInteger_of_int [simp]: "isInteger (of_int i)"
  by (simp add: isInteger_def)

lemma zIntMinMax_Inl:
  assumes "\<forall>i. lo \<le> i \<and> i \<le> hi \<longrightarrow> v \<noteq> Some (JNum (of_int i))"
  shows "\<exists>ms. ms \<noteq> [] \<and> zIntMinMax lo hi msg v = Inl ms"
proof (cases "zIntMinMax lo hi msg v")
  case (Inl ms)
  then have "ms \<noteq> []"
    by (cases "(lo, hi, msg, v)" rule: zIntMinMax.cases) (auto split: if_splits)
  with Inl show ?thesis by simp
next
  case (Inr i)
  from zIntMinMax_Inr [OF this] assms show ?thesis by blast
qed

lemma zIntMinMax_out_of_range:
  assumes "r < of_int lo \<or> of_int hi < r"
  shows "\<exists>ms. Message msg \<in> set ms \<and> zIntMinMax lo hi msg (Some (JNum r)) = Inl ms"
  using assms by (auto simp: numberChecks_def)

lemma createContactSchema_month_issue:
  assumes "zIntMinMax 1 12 ''Month must be between 1 and 12'' (getProp kv ''birthdayMonth'') = Inl ms"
    and "x \<in> set ms"
  shows "\<exists>issues. createContactSchema (JObj kv) = Inl issues \<and> Issue [''birthdayMonth''] x \<in> set issues"
  using assms by (auto simp: createContactSchema_def Let_def issuesAt_def split: sum.splits)

lemma createContactSchema_day_issue:
  assumes "zIntMinMax 1 31 ''Day must be between 1 and 31'' (getProp kv ''birthdayDay'') = Inl ms"
    and "x \<in> set ms"
  shows "\<exists>issues. createContactSchema (JObj kv) = Inl issues \<and> Issue [''birthdayDay''] x \<in> set issues"
  using assms by (auto simp: createContactSchema_def Let_def issuesAt_def split: sum.splits)

lemma formatZodError_field:
  "Issue [k] x \<in> set issues \<Longrightarrow> \<lparr>field = k, message = x\<rparr> \<in> set (formatZodError issues)"
  by (force simp: formatZodError_def)

lemma createContact_rejects:
  assumes "createContactSchema (req_body req) = Inl issues"
  shows "createContact e req st = (Response 400 (ErrorsBody (formatZodError issues)), st)"
  using assms by (simp add: createContact_def)

lemma createContact_rejects_month:
  assumes "req_body req = JObj kv"
    and "\<forall>i. 1 \<le> i \<and> i \<le> 12 \<longrightarrow> getProp kv ''birthdayMonth'' \<noteq> Some (JNum (of_int i))"
  shows "\<exists>errs x. (\<forall>e st. createContact e req st = (Response 400 (ErrorsBody errs), st)) \<and>
           \<lparr>field = ''birthdayMonth'', message = x\<rparr> \<in> set errs"
proof -
  from zIntMinMax_Inl [OF assms(2)] obtain ms
    where ms: "ms \<noteq> []" "zIntMinMax 1 12 ''Month must be between 1 and 12'' (getProp kv ''birthdayMonth'') = Inl ms"
    by blast
  from ms(1) obtain x where x: "x \<in> set ms" by (cases ms) auto
  from createContactSchema_month_issue [OF ms(2) x] obtain issues
    where i: "createContactSchema (JObj kv) = Inl issues" "Issue [''birthdayMonth''] x \<in> set issues"
    by blast
  from i(1) assms(1) have "\<forall>e st. createContact e req st = (Response 400 (ErrorsBody (formatZodError issues)), st)"
    by (simp add: createContact_rejects)
  with formatZodError_field [OF i(2)] show ?thesis by blast
qed

lemma createContact_rejects_month_range:
  assumes "req_body req = JObj kv"
    and "getProp kv ''birthdayMonth'' = Some (JNum r)" "r < 1 \<or> 12 < r"
  shows "\<exists>errs. (\<forall>e st. createContact e req st = (Response 400 (ErrorsBody errs), st)) \<and>
           \<lparr>field = ''birthdayMonth'', message = Message ''Month must be between 1 and 12''\<rparr> \<in> set errs"
proof -
  from assms(3) have "r < of_int 1 \<or> of_int 12 < r" by simp
  from zIntMinMax_out_of_range [OF this, of "''Month must be between 1 and 12''"] assms(2) obtain ms
    where ms: "Message ''Month must be between 1 and 12'' \<in> set ms"
      "zIntMinMax 1 12 ''Month must be between 1 and 12'' (getProp kv ''birthdayMonth'') = Inl ms"
    by auto
  from createContactSchema_month_issue [OF ms(2) ms(1)] obtain issues
    where i: "createContactSchema (JObj kv) = Inl issues"
      "Issue [''birthdayMonth''] (Message ''Month must be between 1 and 12'') \<in> set issues"
    by blast
  from i(1) assms(1) have "\<forall>e st. createContact e req st = (Response 400 (ErrorsBody (formatZodError issues)), st)"
    by (simp add: createContact_rejects)
  with formatZodError_field [OF i(2)] show ?thesis by blast
qed

lemma createContact_rejects_day:
  assumes "req_body req = JObj kv"
    and "\<forall>i. 1 \<le> i \<and> i \<le> 31 \<longrightarrow> getProp kv ''birthdayDay'' \<noteq> Some (JNum (of_int i))"
  shows "\<exists>errs x. (\<forall>e st. createContact e req st = (Response 400 (ErrorsBody errs), st)) \<and>
           \<lparr>field = ''birthdayDay'', message = x\<rparr> \<in> set errs"
proof -
  from zIntMinMax_Inl [OF assms(2)] obtain ms
    where ms: "ms \<noteq> []" "zIntMinMax 1 31 ''Day must be between 1 and 31'' (getProp kv ''birthdayDay'') = Inl ms"
    by blast
  from ms(1) obtain x where x: "x \<in> set ms" by (cases ms) auto
  from createContactSchema_day_issue [OF ms(2) x] obtain issues
    where i: "createContactSchema (JObj kv) = Inl issues" "Issue [''birthdayDay''] x \<in> set issues"
    by blast
  from i(1) assms(1) have "\<forall>e st. createContact e req st = (Response 400 (ErrorsBody (formatZodError issues)), st)"
    by (simp add: createContact_rejects)
  with formatZodError_field [OF i(2)] show ?thesis by blast
qed

lemma createContact_rejects_day_range:
  assumes "req_body req = JObj kv"
    and "getProp kv ''birthdayDay'' = Some (JNum r)" "r < 1 \<or> 31 < r"
  shows "\<exists>errs. (\<forall>e st. createContact e req st = (Response 400 (ErrorsBody errs), st)) \<and>
           \<lparr>field = ''birthdayDay'', message = Message ''Day must be between 1 and 31''\<rparr> \<in> set errs"
proof -
  from assms(3) have "r < of_int 1 \<or> of_int 31 < r" by simp
  from zIntMinMax_out_of_range [OF this, of "''Day must be between 1 and 31''"] assms(2) obtain ms
    where ms: "Message ''Day must be between 1 and 31'' \<in> set ms"
      "zIntMinMax 1 31 ''Day must be between 1 and 31'' (getProp kv ''birthdayDay'') = Inl ms"
    by auto
  from createContactSchema_day_issue [OF ms(2) ms(1)] obtain issues
    where i: "createContactSchema (JObj kv) = Inl issues"
      "Issue [''birthdayDay''] (Message ''Day must be between 1 and 31'') \<in> set issues"
    by blast
  from i(1) assms(1) have "\<forall>e st. createContact e req st = (Response 400 (ErrorsBody (formatZodError issues)), st)"
    by (simp add: createContact_rejects)
  with formatZodError_field [OF i(2)] show ?thesis by blast
qed

lemma createContact_accepts:
  assumes caller: "getAuthenticatedUser e req st = Inr (Inr userRecord)"
    and fresh: "randomUuid e \<notin> cid ` set (contactsBirthdays st)"
    and body: "req_body req = JObj kv"
    and n: "getProp kv ''name'' = Some (JStr n)" "n \<noteq> []" "CHR 0x00 \<notin> set n"
    and m: "getProp kv ''birthdayMonth'' = Some (JNum (of_int m))" "1 \<le> m" "m \<le> 12"
    and d: "getProp kv ''birthdayDay'' = Some (JNum (of_int d))" "1 \<le> d" "d \<le> 31"
    and y: "zIntNullableOptional (getProp kv ''birthdayYear'') = Inr y"
      "integerColumn (orNull y)"
  shows "createContact e req st =
           (Response 201 (ContactBody
              \<lparr>cid = randomUuid e, userId = uid userRecord, name = n, birthdayYear = orNull y,
               birthdayMonth = m, birthdayDay = d,
               createdAt = Some (now e), updatedAt = Some (now e)\<rparr>),
            st\<lparr>contactsBirthdays := contactsBirthdays st @
              [\<lparr>cid = randomUuid e, userId = uid userRecord, name = n, birthdayYear = orNull y,
                birthdayMonth = m, birthdayDay = d,
                createdAt = Some (now e), updatedAt = Some (now e)\<rparr>]\<rparr>)"
proof -
  from getAuthenticatedUser_user [OF caller] have up: "storeUp e" by simp
  have pm: "zIntMinMax 1 12 ''Month must be between 1 and 12'' (getProp kv ''birthdayMonth'') = Inr m"
    unfolding m(1) by (rule zIntMinMax_ok [OF m(2) m(3)])
  have pd: "zIntMinMax 1 31 ''Day must be between 1 and 31'' (getProp kv ''birthdayDay'') = Inr d"
    unfolding d(1) by (rule zIntMinMax_ok [OF d(2) d(3)])
  have pn: "zStringMin1 ''Name is required'' (getProp kv ''name'') = Inr n"
    using n(1,2) by simp
  have parsed: "createContactSchema (req_body req) =
      Inr \<lparr>new_name = n, new_birthdayMonth = m, new_birthdayDay = d, new_birthdayYear = y\<rparr>"
    by (simp add: body createContactSchema_def pn pm pd y)
  have md: "integerColumn (Some m)" "integerColumn (Some d)"
    using m(2,3) d(2,3) by (simp_all add: integerColumn_def)
  show ?thesis
    using up fresh y(2) md n(3)
    by (simp add: createContact_def parsed caller insertContact_def textColumn_def Let_def)
qed

text \<open>
  Claim C6, as the code has it. For a caller with a User row, a create is accepted when
  the body's name is a non-empty string without a character of code 0, its month an
  integer in 1..12, its day an integer in 1..31, and its year absent, \<open>null\<close> or an
  integer of 32 bits; month and day are not checked against each other. The answer is 201 with the new row, whose name, month and
  day are those of the body. A month or a day that is not an integer in its range is
  answered 400 with an error for that field (for a number out of range, the schema's
  own message), whatever the caller, the clock and the store are: the store is not
  consulted.
\<close>

theorem createContact_validation:
  "(getAuthenticatedUser e req st = Inr (Inr userRecord) \<and>
    randomUuid e \<notin> cid ` set (contactsBirthdays st) \<and>
    req_body req = JObj kv \<and>
    getProp kv ''name'' = Some (JStr n) \<and> n \<noteq> [] \<and> CHR 0x00 \<notin> set n \<and>
    getProp kv ''birthdayMonth'' = Some (JNum (of_int m)) \<and> 1 \<le> m \<and> m \<le> 12 \<and>
    getProp kv ''birthdayDay'' = Some (JNum (of_int d)) \<and> 1 \<le> d \<and> d \<le> 31 \<and>
    (getProp kv ''birthdayYear'' = None \<or> getProp kv ''birthdayYear'' = Some JNull \<or>
     (\<exists>y. getProp kv ''birthdayYear'' = Some (JNum (of_int y)) \<and>
          - 2147483648 \<le> y \<and> y \<le> 2147483647)) \<longrightarrow>
    (\<exists>c. createContact e req st =
            (Response 201 (ContactBody c), st\<lparr>contactsBirthdays := contactsBirthdays st @ [c]\<rparr>) \<and>
          name c = n \<and> birthdayMonth c = m \<and> birthdayDay c = d \<and>
          userId c = uid userRecord)) \<and>
   (req_body req = JObj kv \<and>
    (\<forall>i. 1 \<le> i \<and> i \<le> 12 \<longrightarrow> getProp kv ''birthdayMonth'' \<noteq> Some (JNum (of_int i))) \<longrightarrow>
    (\<exists>errs x. (\<forall>e' st'. createContact e' req st' = (Response 400 (ErrorsBody errs), st')) \<and>
       \<lparr>field = ''birthdayMonth'', message = x\<rparr> \<in> set errs)) \<and>
   (req_body req = JObj kv \<and> getProp kv ''birthdayMonth'' = Some (JNum r) \<and> (r < 1 \<or> 12 < r) \<longrightarrow>
    (\<exists>errs. (\<forall>e' st'. createContact e' req st' = (Response 400 (ErrorsBody errs), st')) \<and>
       \<lparr>field = ''birthdayMonth'', message = Message ''Month must be between 1 and 12''\<rparr>
         \<in> set errs)) \<and>
   (req_body req = JObj kv \<and>
    (\<forall>i. 1 \<le> i \<and> i \<le> 31 \<longrightarrow> getProp kv ''birthdayDay'' \<noteq> Some (JNum (of_int i))) \<longrightarrow>
    (\<exists>errs x. (\<forall>e' st'. createContact e' req st' = (Response 400 (ErrorsBody errs), st')) \<and>
       \<lparr>field = ''birthdayDay'', message = x\<rparr> \<in> set errs)) \<and>
   (req_body req = JObj kv \<and> getProp kv ''birthdayDay'' = Some (JNum r) \<and> (r < 1 \<or> 31 < r) \<longrightarrow>
    (\<exists>errs. (\<forall>e' st'. createContact e' req st' = (Response 400 (ErrorsBody errs), st')) \<and>
       \<lparr>field = ''birthdayDay'', message = Message ''Day must be between 1 and 31''\<rparr>
         \<in> set errs))"
proof (intro conjI impI)
  assume h: "getAuthenticatedUser e req st = Inr (Inr userRecord) \<and>
    randomUuid e \<notin> cid ` set (contactsBirthdays st) \<and>
    req_body req = JObj kv \<and>
    getProp kv ''name'' = Some (JStr n) \<and> n \<noteq> [] \<and> CHR 0x00 \<notin> set n \<and>
    getProp kv ''birthdayMonth'' = Some (JNum (of_int m)) \<and> 1 \<le> m \<and> m \<le> 12 \<and>
    getProp kv ''birthdayDay'' = Some (JNum (of_int d)) \<and> 1 \<le> d \<and> d \<le> 31 \<and>
    (getProp kv ''birthdayYear'' = None \<or> getProp kv ''birthdayYear'' = Some JNull \<or>
     (\<exists>y. getProp kv ''birthdayYear'' = Some (JNum (of_int y)) \<and>
          - 2147483648 \<le> y \<and> y \<le> 2147483647))"
  then have "\<exists>y. zIntNullableOptional (getProp kv ''birthdayYear'') = Inr y \<and>
      integerColumn (orNull y)"
    by (auto simp: integerColumn_def orNull_def)
  then obtain y where y: "zIntNullableOptional (getProp kv ''birthdayYear'') = Inr y"
      "integerColumn (orNull y)"
    by blast
  from h have c: "getAuthenticatedUser e req st = Inr (Inr userRecord)"
    and f: "randomUuid e \<notin> cid ` set (contactsBirthdays st)"
    and b: "req_body req = JObj kv"
    and n: "getProp kv ''name'' = Some (JStr n)" "n \<noteq> []" "CHR 0x00 \<notin> set n"
    and m: "getProp kv ''birthdayMonth'' = Some (JNum (of_int m))" "1 \<le> m" "m \<le> 12"
    and d: "getProp kv ''birthdayDay'' = Some (JNum (of_int d))" "1 \<le> d" "d \<le> 31"
    by blast+
  have "createContact e req st =
           (Response 201 (ContactBody
              \<lparr>cid = randomUuid e, userId = uid userRecord, name = n, birthdayYear = orNull y,
               birthdayMonth = m, birthdayDay = d,
               createdAt = Some (now e), updatedAt = Some (now e)\<rparr>),
            st\<lparr>contactsBirthdays := contactsBirthdays st @
              [\<lparr>cid = randomUuid e, userId = uid userRecord, name = n, birthdayYear = orNull y,
                birthdayMonth = m, birthdayDay = d,
                createdAt = Some (now e), updatedAt = Some (now e)\<rparr>]\<rparr>)"
    by (rule createContact_accepts [OF c f b n m d y])
  then show "\<exists>c. createContact e req st =
            (Response 201 (ContactBody c), st\<lparr>contactsBirthdays := contactsBirthdays st @ [c]\<rparr>) \<and>
          name c = n \<and> birthdayMonth c = m \<and> birthdayDay c = d \<and>
          userId c = uid userRecord"
    by simp
next
  assume "req_body req = JObj kv \<and>
    (\<forall>i. 1 \<le> i \<and> i \<le> 12 \<longrightarrow> getProp kv ''birthdayMonth'' \<noteq> Some (JNum (of_int i)))"
  then show "\<exists>errs x. (\<forall>e' st'. createContact e' req st' = (Response 400 (ErrorsBody errs), st')) \<and>
       \<lparr>field = ''birthdayMonth'', message = x\<rparr> \<in> set errs"
    using createContact_rejects_month [of req kv] by blast
next
  assume "req_body req = JObj kv \<and> getProp kv ''birthdayMonth'' = Some (JNum r) \<and> (r < 1 \<or> 12 < r)"
  then show "\<exists>errs. (\<forall>e' st'. createContact e' req st' = (Response 400 (ErrorsBody errs), st')) \<and>
       \<lparr>field = ''birthdayMonth'', message = Message ''Month must be between 1 and 12''\<rparr>
         \<in> set errs"
    using createContact_rejects_month_range [of req kv r] by blast
next
  assume "req_body req = JObj kv \<and>
    (\<forall>i. 1 \<le> i \<and> i \<le> 31 \<longrightarrow> getProp kv ''birthdayDay'' \<noteq> Some (JNum (of_int i)))"
  then show "\<exists>errs x. (\<forall>e' st'. createContact e' req st' = (Response 400 (ErrorsBody errs), st')) \<and>
       \<lparr>field = ''birthdayDay'', message = x\<rparr> \<in> set errs"
    using createContact_rejects_day [of req kv] by blast
next
  assume "req_body req = JObj kv \<and> getProp kv ''birthdayDay'' = Some (JNum r) \<and> (r < 1 \<or> 31 < r)"
  then show "\<exists>errs. (\<forall>e' st'. createContact e' req st' = (Response 400 (ErrorsBody errs), st')) \<and>
       \<lparr>field = ''birthdayDay'', message = Message ''Day must be between 1 and 31''\<rparr>
         \<in> set errs"
    using createContact_rejects_day_range [of req kv r] by blast
qed

lemma createRequest_caller:
  "getAuthenticatedUser exampleEnv (createRequest b) exampleStore = Inr (Inr userA)"
  by (simp add: getAuthenticatedUser_def createRequest_def falsy_def selectUserByClerkId_def
      query_def exampleEnv_def exampleStore_def userA_def userB_def)

theorem createContact_validation_witness:
  "getAuthenticatedUser exampleEnv (createRequest (JObj february31)) exampleStore = Inr (Inr userA) \<and>
   randomUuid exampleEnv \<notin> cid ` set (contactsBirthdays exampleStore) \<and>
   getProp february31 ''name'' = Some (JStr ''Bob'') \<and>
   getProp february31 ''birthdayMonth'' = Some (JNum 2) \<and>
   getProp february31 ''birthdayDay'' = Some (JNum 31) \<and>
   getProp february31 ''birthdayYear'' = None \<and>
   (\<exists>c. createContact exampleEnv (createRequest (JObj february31)) exampleStore =
           (Response 201 (ContactBody c),
            exampleStore\<lparr>contactsBirthdays := contactsBirthdays exampleStore @ [c]\<rparr>) \<and>
         name c = ''Bob'' \<and> birthdayMonth c = 2 \<and> birthdayDay c = 31 \<and> userId c = uid userA)"
proof -
  let ?req = "createRequest (JObj february31)"
  have h1: "getAuthenticatedUser exampleEnv ?req exampleStore = Inr (Inr userA)"
    by (rule createRequest_caller)
  have h2: "randomUuid exampleEnv \<notin> cid ` set (contactsBirthdays exampleStore)"
    by (simp add: exampleEnv_def exampleStore_def ada_def)
  have h3: "req_body ?req = JObj february31"
    by (simp add: createRequest_def)
  have h4: "getProp february31 ''name'' = Some (JStr ''Bob'')"
    and h5: "getProp february31 ''birthdayMonth'' = Some (JNum 2)"
    and h6: "getProp february31 ''birthdayDay'' = Some (JNum 31)"
    and h7: "getProp february31 ''birthdayYear'' = None"
    by (simp_all add: getProp_def february31_def)
  from h1 h2 h3 h4 h5 h6 h7
    createContact_validation [where e = exampleEnv and req = ?req and st = exampleStore
      and userRecord = userA and kv = february31 and n = "''Bob''" and m = 2 and d = 31]
  have "\<exists>c. createContact exampleEnv ?req exampleStore =
           (Response 201 (ContactBody c),
            exampleStore\<lparr>contactsBirthdays := contactsBirthdays exampleStore @ [c]\<rparr>) \<and>
         name c = ''Bob'' \<and> birthdayMonth c = 2 \<and> birthdayDay c = 31 \<and> userId c = uid userA"
    by simp
  with h1 h2 h4 h5 h6 h7 show ?thesis by (intro conjI)
qed

text \<open>
  The claim as stated accepts every body with a good name, month and day. A body with
  those and a year that is a string is answered 400; one with those and a year of \<open>2^31\<close>
  passes validation, the insert throws, and the answer is 500; and so it is for a body
  whose name, a non-empty string, has the character of code 0 in it.
\<close>

theorem createContact_year_counterexample:
  "getProp quotedYear ''name'' = Some (JStr ''Bob'') \<and>
   getProp quotedYear ''birthdayMonth'' = Some (JNum 2) \<and>
   getProp quotedYear ''birthdayDay'' = Some (JNum 31) \<and>
   createContact exampleEnv (createRequest (JObj quotedYear)) exampleStore =
     (Response 400 (ErrorsBody [\<lparr>field = ''birthdayYear'', message = LibraryMessage InvalidType\<rparr>]),
      exampleStore) \<and>
   getProp distantYear ''name'' = Some (JStr ''Bob'') \<and>
   getProp distantYear ''birthdayMonth'' = Some (JNum 2) \<and>
   getProp distantYear ''birthdayDay'' = Some (JNum 31) \<and>
   getProp distantYear ''birthdayYear'' = Some (JNum 2147483648) \<and>
   createContact exampleEnv (createRequest (JObj distantYear)) exampleStore =
     (Response 500 (ErrorBody ''Internal server error''), exampleStore) \<and>
   getProp endsInNul ''name'' = Some (JStr (''Bob'' @ [CHR 0x00])) \<and>
   getProp endsInNul ''birthdayMonth'' = Some (JNum 2) \<and>
   getProp endsInNul ''birthdayDay'' = Some (JNum 31) \<and>
   getProp endsInNul ''birthdayYear'' = None \<and>
   createContact exampleEnv (createRequest (JObj endsInNul)) exampleStore =
     (Response 500 (ErrorBody ''Internal server error''), exampleStore)"
proof -
  have quoted: "createContact exampleEnv (createRequest (JObj quotedYear)) exampleStore =
     (Response 400 (ErrorsBody [\<lparr>field = ''birthdayYear'', message = LibraryMessage InvalidType\<rparr>]),
      exampleStore)"
    by (simp add: createContact_def createContactSchema_def createRequest_def getProp_def
        quotedYear_def numberChecks_def isInteger_def formatZodError_def issuesAt_def)
  have parsed: "createContactSchema (req_body (createRequest (JObj distantYear))) =
      Inr \<lparr>new_name = ''Bob'', new_birthdayMonth = 2, new_birthdayDay = 31,
           new_birthdayYear = Some (Some 2147483648)\<rparr>"
    by (simp add: createContactSchema_def createRequest_def getProp_def distantYear_def
        numberChecks_def isInteger_def)
  have distant: "createContact exampleEnv (createRequest (JObj distantYear)) exampleStore =
     (Response 500 (ErrorBody ''Internal server error''), exampleStore)"
    by (simp add: createContact_def parsed createRequest_caller insertContact_def orNull_def
        integerColumn_def internalServerError_def)
  have props: "getProp quotedYear ''name'' = Some (JStr ''Bob'') \<and>
      getProp quotedYear ''birthdayMonth'' = Some (JNum 2) \<and>
      getProp quotedYear ''birthdayDay'' = Some (JNum 31) \<and>
      getProp distantYear ''name'' = Some (JStr ''Bob'') \<and>
      getProp distantYear ''birthdayMonth'' = Some (JNum 2) \<and>
      getProp distantYear ''birthdayDay'' = Some (JNum 31) \<and>
      getProp distantYear ''birthdayYear'' = Some (JNum 2147483648)"
    by (simp add: getProp_def quotedYear_def distantYear_def)
  have parsed': "createContactSchema (req_body (createRequest (JObj endsInNul))) =
      Inr \<lparr>new_name = ''Bob'' @ [CHR 0x00], new_birthdayMonth = 2, new_birthdayDay = 31,
           new_birthdayYear = None\<rparr>"
    by (simp add: createContactSchema_def createRequest_def getProp_def endsInNul_def
        numberChecks_def isInteger_def)
  have nul: "createContact exampleEnv (createRequest (JObj endsInNul)) exampleStore =
     (Response 500 (ErrorBody ''Internal server error''), exampleStore)"
    by (simp add: createContact_def parsed' createRequest_caller insertContact_def orNull_def
        textColumn_def internalServerError_def)
  have props': "getProp endsInNul ''name'' = Some (JStr (''Bob'' @ [CHR 0x00])) \<and>
      getProp endsInNul ''birthdayMonth'' = Some (JNum 2) \<and>
      getProp endsInNul ''birthdayDay'' = Some (JNum 31) \<and>
      getProp endsInNul ''birthdayYear'' = None"
    by (simp add: getProp_def endsInNul_def)
  from quoted distant props nul props' show ?thesis by simp
qed

section \<open>Syncing a user\<close>

lemma one_row_per_key:
  assumes "distinct (map f xs)" "k \<in> f ` set xs"
  shows "length (filter (\<lambda>x. f x = k) xs) = 1"
  using assms
proof (induction xs)
  case Nil
  then show ?case by simp
next
  case (Cons a xs)
  show ?case
  proof (cases "f a = k")
    case True
    with Cons.prems(1) have "k \<notin> f ` set xs" by simp
    then have "\<forall>x \<in> set xs. f x \<noteq> k" by blast
    then have "filter (\<lambda>x. f x = k) xs = []" by (simp add: filter_empty_conv)
    with True show ?thesis by simp
  next
    case False
    with Cons.prems have "distinct (map f xs)" "k \<in> f ` set xs" by auto
    from Cons.IH [OF this] False show ?thesis by simp
  qed
qed

lemma syncUser_ok:
  assumes "syncUser getUser e req st = (Response 200 SuccessBody, st')"
  shows "\<not> falsy (auth_userId req) \<and>
         (\<exists>em. getUser (the (auth_userId req)) = Inr em \<and>
               upsertUser e st (the (auth_userId req)) em = Inr st')"
proof -
  have nf: "\<not> falsy (auth_userId req)"
    using assms by (auto simp: syncUser_def)
  obtain em where em: "getUser (the (auth_userId req)) = Inr em"
    using assms nf by (cases "getUser (the (auth_userId req))")
      (simp_all add: syncUser_def internalServerError_def)
  have "upsertUser e st (the (auth_userId req)) em = Inr st'"
    using assms nf em by (cases "upsertUser e st (the (auth_userId req)) em")
      (simp_all add: syncUser_def internalServerError_def)
  with nf em show ?thesis by blast
qed


lemma upsertUser_result:
  assumes "upsertUser e st i em = Inr st'"
  shows "contactsBirthdays st' = contactsBirthdays st \<and>
         (i \<notin> clerkUserId ` set (users st) \<longrightarrow>
            users st' = users st @
              [\<lparr>uid = randomUuid e, clerkUserId = i, email = em,
                u_createdAt = Some (now e), u_updatedAt = Some (now e)\<rparr>]) \<and>
         (i \<in> clerkUserId ` set (users st) \<longrightarrow>
            users st' =
              map (\<lambda>u. if clerkUserId u = i
                       then u\<lparr>email := (case em of None \<Rightarrow> email u | Some a \<Rightarrow> Some a),
                              u_updatedAt := Some (now e)\<rparr>
                       else u) (users st))"
proof (cases "i \<in> clerkUserId ` set (users st)")
  case True
  with assms have "storeUp e" and
    "st' = st\<lparr>users := map (\<lambda>u. if clerkUserId u = i
                       then u\<lparr>email := (case em of None \<Rightarrow> email u | Some a \<Rightarrow> Some a),
                              u_updatedAt := Some (now e)\<rparr>
                       else u) (users st)\<rparr>"
    by (simp_all add: upsertUser_def split: if_splits)
  with True show ?thesis by simp
next
  case False
  with assms have "st' = st\<lparr>users := users st @
              [\<lparr>uid = randomUuid e, clerkUserId = i, email = em,
                u_createdAt = Some (now e), u_updatedAt = Some (now e)\<rparr>]\<rparr>"
    by (simp add: upsertUser_def split: if_splits)
  with False show ?thesis by simp
qed

lemma upsertUser_present:
  assumes "upsertUser e st i em = Inr st'"
  shows "i \<in> clerkUserId ` set (users st')"
proof (cases "i \<in> clerkUserId ` set (users st)")
  case True
  let ?f = "\<lambda>u. if clerkUserId u = i
                 then u\<lparr>email := (case em of None \<Rightarrow> email u | Some a \<Rightarrow> Some a),
                        u_updatedAt := Some (now e)\<rparr>
                 else u"
  from upsertUser_result [OF assms] True have "users st' = map ?f (users st)" by blast
  then have "map clerkUserId (users st') = map (clerkUserId \<circ> ?f) (users st)" by simp
  also have "\<dots> = map clerkUserId (users st)" by (rule map_comp_same) simp
  finally have "set (map clerkUserId (users st')) = set (map clerkUserId (users st))" by simp
  with True show ?thesis by (simp only: set_map)
next
  case False
  from upsertUser_result [OF assms] False
  have "users st' = users st @
              [\<lparr>uid = randomUuid e, clerkUserId = i, email = em,
                u_createdAt = Some (now e), u_updatedAt = Some (now e)\<rparr>]"
    by blast
  then show ?thesis by simp
qed

text \<open>
  Claim C7. In any store the service has got into, after a successful sync under an
  identity the users table has exactly one row keyed by that identity. If there was
  none, the sync has appended one; if there was one, the table is the old one with that
  row's email and update timestamp rewritten and nothing else changed. A further
  successful sync under the same identity keeps the number of rows, their identifiers,
  their identities and their creation timestamps, and there is still exactly one row of
  that identity. The contacts table is not touched.
\<close>

theorem syncUser_idempotent:
  assumes reach: "st = serve requests emptyStore"
    and caller: "auth_userId req = Some i"
    and ok: "syncUser getUser e req st = (Response 200 SuccessBody, st')"
  shows "length (filter (\<lambda>u. clerkUserId u = i) (users st')) = 1 \<and>
         contactsBirthdays st' = contactsBirthdays st \<and>
         (\<exists>em. getUser i = Inr em \<and>
            (i \<notin> clerkUserId ` set (users st) \<longrightarrow>
               users st' = users st @
                 [\<lparr>uid = randomUuid e, clerkUserId = i, email = em,
                   u_createdAt = Some (now e), u_updatedAt = Some (now e)\<rparr>]) \<and>
            (i \<in> clerkUserId ` set (users st) \<longrightarrow>
               users st' =
                 map (\<lambda>u. if clerkUserId u = i
                          then u\<lparr>email := (case em of None \<Rightarrow> email u | Some a \<Rightarrow> Some a),
                                 u_updatedAt := Some (now e)\<rparr>
                          else u) (users st))) \<and>
         (\<forall>getUser2 e2 st2.
            syncUser getUser2 e2 req st' = (Response 200 SuccessBody, st2) \<longrightarrow>
              length (filter (\<lambda>u. clerkUserId u = i) (users st2)) = 1 \<and>
              length (users st2) = length (users st') \<and>
              map uid (users st2) = map uid (users st') \<and>
              map clerkUserId (users st2) = map clerkUserId (users st') \<and>
              map u_createdAt (users st2) = map u_createdAt (users st'))"
proof -
  from syncUser_ok [OF ok] caller obtain em
    where em: "getUser i = Inr em" and up: "upsertUser e st i em = Inr st'"
    by auto
  have c: "consistent st"
    unfolding reach by (rule consistent_serve) (rule consistent_emptyStore)
  have c': "consistent st'"
    by (rule consistent_upsertUser [OF c up])
  then have d': "distinct (map clerkUserId (users st'))"
    by (simp add: consistent_def)
  note here = upsertUser_present [OF up]
  have one: "length (filter (\<lambda>u. clerkUserId u = i) (users st')) = 1"
    by (rule one_row_per_key [OF d' here])
  note res = upsertUser_result [OF up]
  have again: "length (filter (\<lambda>u. clerkUserId u = i) (users st2)) = 1 \<and>
              length (users st2) = length (users st') \<and>
              map uid (users st2) = map uid (users st') \<and>
              map clerkUserId (users st2) = map clerkUserId (users st') \<and>
              map u_createdAt (users st2) = map u_createdAt (users st')"
    if ok2: "syncUser getUser2 e2 req st' = (Response 200 SuccessBody, st2)"
    for getUser2 e2 st2
  proof -
    from syncUser_ok [OF ok2] caller obtain em2
      where up2: "upsertUser e2 st' i em2 = Inr st2"
      by auto
    let ?f = "\<lambda>u. if clerkUserId u = i
                   then u\<lparr>email := (case em2 of None \<Rightarrow> email u | Some a \<Rightarrow> Some a),
                          u_updatedAt := Some (now e2)\<rparr>
                   else u"
    from upsertUser_result [OF up2] here have us: "users st2 = map ?f (users st')"
      by blast
    have d2: "distinct (map clerkUserId (users st2))"
      using consistent_upsertUser [OF c' up2] by (simp add: consistent_def)
    have one2: "length (filter (\<lambda>u. clerkUserId u = i) (users st2)) = 1"
      by (rule one_row_per_key [OF d2 upsertUser_present [OF up2]])
    have m1: "map (uid \<circ> ?f) (users st') = map uid (users st')"
      by (rule map_comp_same) simp
    have m2: "map (clerkUserId \<circ> ?f) (users st') = map clerkUserId (users st')"
      by (rule map_comp_same) simp
    have m3: "map (u_createdAt \<circ> ?f) (users st') = map u_createdAt (users st')"
      by (rule map_comp_same) simp
    have l: "length (users st2) = length (users st')"
      by (simp only: us length_map)
    from one2 l m1 m2 m3 show ?thesis
      by (simp only: us map_map simp_thms)
  qed
  from one res em again show ?thesis by blast
qed

theorem syncUser_idempotent_witness:
  "exampleStore = serve exampleRequests emptyStore \<and>
   auth_userId syncRequest = Some ''clerk_a'' \<and>
   syncUser movedUser exampleEnv syncRequest exampleStore =
     (Response 200 SuccessBody,
      exampleStore\<lparr>users := [userA\<lparr>email := Some ''ada@example.org'', u_updatedAt := Some 7\<rparr>,
                              userB]\<rparr>) \<and>
   length (filter (\<lambda>u. clerkUserId u = ''clerk_a'')
     (users (exampleStore\<lparr>users := [userA\<lparr>email := Some ''ada@example.org'',
                                            u_updatedAt := Some 7\<rparr>, userB]\<rparr>))) = 1"
proof -
  have h1: "exampleStore = serve exampleRequests emptyStore"
    by (simp add: serve_exampleRequests)
  have h2: "auth_userId syncRequest = Some ''clerk_a''"
    by (simp add: syncRequest_def)
  have h3: "syncUser movedUser exampleEnv syncRequest exampleStore =
     (Response 200 SuccessBody,
      exampleStore\<lparr>users := [userA\<lparr>email := Some ''ada@example.org'', u_updatedAt := Some 7\<rparr>,
                              userB]\<rparr>)"
    by (simp add: syncUser_def syncRequest_def movedUser_def falsy_def upsertUser_def
        exampleEnv_def exampleStore_def userA_def userB_def)
  from syncUser_idempotent [OF h1 h2 h3]
  have "length (filter (\<lambda>u. clerkUserId u = ''clerk_a'')
     (users (exampleStore\<lparr>users := [userA\<lparr>email := Some ''ada@example.org'',
                                            u_updatedAt := Some 7\<rparr>, userB]\<rparr>))) = 1"
    by (rule conjunct1)
  with h1 h2 h3 show ?thesis by (intro conjI)
qed

section \<open>Updating a contact\<close>

lemma filter_eq_single:
  assumes "distinct xs" "c \<in> set xs"
  shows "filter (\<lambda>x. x = c) xs = [c]"
  using assms
proof (induction xs)
  case Nil
  then show ?case by simp
next
  case (Cons a xs)
  show ?case
  proof (cases "a = c")
    case True
    with Cons.prems(1) have "c \<notin> set xs" by simp
    then have "\<forall>x \<in> set xs. x \<noteq> c" by blast
    then have "filter (\<lambda>x. x = c) xs = []" by (simp only: filter_empty_conv)
    with True show ?thesis by simp
  next
    case False
    with Cons.prems have "distinct xs" "c \<in> set xs" by auto
    from Cons.IH [OF this] False show ?thesis by simp
  qed
qed

lemma owned_iff_row:
  assumes key: "distinct (map cid cs)"
    and mine: "c \<in> set cs" "cid c = i" "userId c = u"
    and x: "x \<in> set cs"
  shows "owned i u x = (x = c)"
proof
  assume "owned i u x"
  then have "cid x = cid c" using mine(2) by (simp add: owned_def)
  from distinct_cid_unique [OF key x mine(1) this] show "x = c" .
next
  assume "x = c"
  with mine show "owned i u x" by (simp add: owned_def)
qed

lemma filter_owned_row:
  assumes key: "distinct (map cid cs)"
    and mine: "c \<in> set cs" "cid c = i" "userId c = u"
  shows "filter (owned i u) cs = [c]"
proof -
  have "filter (owned i u) cs = filter (\<lambda>x. x = c) cs"
    by (rule filter_cong [OF refl]) (rule owned_iff_row [OF key mine])
  also have "\<dots> = [c]"
    using key mine(1) by (intro filter_eq_single) (simp_all add: distinct_map)
  finally show ?thesis .
qed

lemma map_owned_row:
  assumes key: "distinct (map cid cs)"
    and mine: "c \<in> set cs" "cid c = i" "userId c = u"
  shows "map (\<lambda>x. if owned i u x then f x else x) cs = map (\<lambda>x. if x = c then f c else x) cs"
proof (rule map_cong [OF refl])
  fix x assume "x \<in> set cs"
  from owned_iff_row [OF key mine this]
  show "(if owned i u x then f x else x) = (if x = c then f c else x)" by auto
qed

lemma filter_owned_after:
  assumes key: "distinct (map cid cs)"
    and mine: "c \<in> set cs" "cid c = i" "userId c = u"
    and same: "cid c' = cid c" "userId c' = userId c"
  shows "filter (owned i u) (map (\<lambda>x. if x = c then c' else x) cs) = [c']"
proof -
  let ?g = "\<lambda>x. if x = c then c' else x"
  have "filter (owned i u) (map ?g cs) = map ?g (filter (owned i u \<circ> ?g) cs)"
    by (simp only: filter_map)
  also have "filter (owned i u \<circ> ?g) cs = filter (\<lambda>x. x = c) cs"
  proof (rule filter_cong [OF refl])
    fix x assume x: "x \<in> set cs"
    show "(owned i u \<circ> ?g) x = (x = c)"
    proof (cases "x = c")
      case True
      with mine same show ?thesis by (simp add: owned_def)
    next
      case False
      with owned_iff_row [OF key mine x] show ?thesis by simp
    qed
  qed
  also have "\<dots> = [c]"
    using key mine(1) by (intro filter_eq_single) (simp_all add: distinct_map)
  finally show ?thesis by simp
qed

lemma getAuthenticatedUser_frame:
  assumes "getAuthenticatedUser e req st = Inr (Inr u)" "users st' = users st" "storeUp e'"
  shows "getAuthenticatedUser e' req st' = Inr (Inr u)"
  using assms
  by (auto simp: getAuthenticatedUser_def selectUserByClerkId_def query_def
      split: if_splits list.splits)

lemma updateContactSchema_parsed:
  assumes "updateContactSchema (JObj kv) = Inr upd"
  shows "optional (zStringMin1 ''Name cannot be empty'') (getProp kv ''name'') = Inr (set_name upd) \<and>
         optional (zIntMinMax 1 12 ''Month must be between 1 and 12'') (getProp kv ''birthdayMonth'') =
           Inr (set_birthdayMonth upd) \<and>
         optional (zIntMinMax 1 31 ''Day must be between 1 and 31'') (getProp kv ''birthdayDay'') =
           Inr (set_birthdayDay upd) \<and>
         zIntNullableOptional (getProp kv ''birthdayYear'') = Inr (set_birthdayYear upd)"
  using assms
  by (auto simp: updateContactSchema_def Let_def split: sum.splits if_splits)

lemma applyUpdate_supplied:
  assumes "updateContactSchema (JObj kv) = Inr upd"
  shows "(getProp kv ''name'' = None \<longrightarrow> name (applyUpdate t upd c) = name c) \<and>
         (\<forall>n. getProp kv ''name'' = Some (JStr n) \<longrightarrow> name (applyUpdate t upd c) = n) \<and>
         (getProp kv ''birthdayMonth'' = None \<longrightarrow>
            birthdayMonth (applyUpdate t upd c) = birthdayMonth c) \<and>
         (\<forall>m. getProp kv ''birthdayMonth'' = Some (JNum (of_int m)) \<longrightarrow>
            birthdayMonth (applyUpdate t upd c) = m) \<and>
         (getProp kv ''birthdayDay'' = None \<longrightarrow> birthdayDay (applyUpdate t upd c) = birthdayDay c) \<and>
         (\<forall>d. getProp kv ''birthdayDay'' = Some (JNum (of_int d)) \<longrightarrow>
            birthdayDay (applyUpdate t upd c) = d) \<and>
         (getProp kv ''birthdayYear'' = None \<longrightarrow>
            birthdayYear (applyUpdate t upd c) = birthdayYear c) \<and>
         (getProp kv ''birthdayYear'' = Some JNull \<longrightarrow> birthdayYear (applyUpdate t upd c) = None) \<and>
         (\<forall>y. getProp kv ''birthdayYear'' = Some (JNum (of_int y)) \<longrightarrow>
            birthdayYear (applyUpdate t upd c) = Some y)"
proof -
  note p = updateContactSchema_parsed [OF assms]
  from p have n: "optional (zStringMin1 ''Name cannot be empty'') (getProp kv ''name'') = Inr (set_name upd)"
    by blast
  from p have m: "optional (zIntMinMax 1 12 ''Month must be between 1 and 12'') (getProp kv ''birthdayMonth'') =
           Inr (set_birthdayMonth upd)"
    by blast
  from p have d: "optional (zIntMinMax 1 31 ''Day must be between 1 and 31'') (getProp kv ''birthdayDay'') =
           Inr (set_birthdayDay upd)"
    by blast
  from p have y: "zIntNullableOptional (getProp kv ''birthdayYear'') = Inr (set_birthdayYear upd)"
    by blast
  have n1: "getProp kv ''name'' = None \<longrightarrow> name (applyUpdate t upd c) = name c"
    using n [symmetric] by (auto simp: applyUpdate_def)
  have n2: "\<forall>n. getProp kv ''name'' = Some (JStr n) \<longrightarrow> name (applyUpdate t upd c) = n"
    using n [symmetric] by (auto simp: applyUpdate_def split: if_splits)
  have m1: "getProp kv ''birthdayMonth'' = None \<longrightarrow>
            birthdayMonth (applyUpdate t upd c) = birthdayMonth c"
    using m [symmetric] by (auto simp: applyUpdate_def)
  have m2: "\<forall>m. getProp kv ''birthdayMonth'' = Some (JNum (of_int m)) \<longrightarrow>
            birthdayMonth (applyUpdate t upd c) = m"
    using m [symmetric] by (auto simp: applyUpdate_def split: if_splits)
  have d1: "getProp kv ''birthdayDay'' = None \<longrightarrow> birthdayDay (applyUpdate t upd c) = birthdayDay c"
    using d [symmetric] by (auto simp: applyUpdate_def)
  have d2: "\<forall>d. getProp kv ''birthdayDay'' = Some (JNum (of_int d)) \<longrightarrow>
            birthdayDay (applyUpdate t upd c) = d"
    using d [symmetric] by (auto simp: applyUpdate_def split: if_splits)
  have y1: "getProp kv ''birthdayYear'' = None \<longrightarrow>
            birthdayYear (applyUpdate t upd c) = birthdayYear c"
    using y [symmetric] by (auto simp: applyUpdate_def)
  have y2: "getProp kv ''birthdayYear'' = Some JNull \<longrightarrow> birthdayYear (applyUpdate t upd c) = None"
    using y [symmetric] by (auto simp: applyUpdate_def)
  have y3: "\<forall>y. getProp kv ''birthdayYear'' = Some (JNum (of_int y)) \<longrightarrow>
            birthdayYear (applyUpdate t upd c) = Some y"
    using y [symmetric] by (auto simp: applyUpdate_def)
  from n1 n2 m1 m2 d1 d2 y1 y2 y3 show ?thesis by (intro conjI)
qed

lemma updateContactSchema_text:
  assumes "updateContactSchema (JObj kv) = Inr upd"
    and "\<forall>n. getProp kv ''name'' = Some (JStr n) \<longrightarrow> CHR 0x00 \<notin> set n"
  shows "case set_name upd of None \<Rightarrow> True | Some n \<Rightarrow> textColumn n"
proof (cases "set_name upd")
  case None
  then show ?thesis by simp
next
  case (Some n)
  from updateContactSchema_parsed [OF assms(1)]
  have "Inr (set_name upd) =
      optional (zStringMin1 ''Name cannot be empty'') (getProp kv ''name'')"
    by simp
  with Some have "getProp kv ''name'' = Some (JStr n)"
    by (cases "getProp kv ''name''" rule: zIntNullableOptional.cases)
      (auto split: if_splits)
  with assms(2) Some show ?thesis by (simp add: textColumn_def)
qed

lemma updateContactSchema_integers:
  assumes "updateContactSchema (JObj kv) = Inr upd"
    and "\<forall>y. getProp kv ''birthdayYear'' = Some (JNum (of_int y)) \<longrightarrow>
           - 2147483648 \<le> y \<and> y \<le> 2147483647"
  shows "integerColumn (case set_birthdayYear upd of None \<Rightarrow> None | Some y \<Rightarrow> y) \<and>
         integerColumn (set_birthdayMonth upd) \<and> integerColumn (set_birthdayDay upd)"
proof -
  from updateContactSchema_parsed [OF assms(1)]
  have y: "Inr (set_birthdayYear upd) = zIntNullableOptional (getProp kv ''birthdayYear'')"
    by simp
  have year: "integerColumn (case set_birthdayYear upd of None \<Rightarrow> None | Some y \<Rightarrow> y)"
  proof (cases "set_birthdayYear upd")
    case None
    then show ?thesis by (simp add: integerColumn_def)
  next
    case (Some v)
    show ?thesis
    proof (cases v)
      case None
      with Some show ?thesis by (simp add: integerColumn_def)
    next
      case (Some i)
      with \<open>set_birthdayYear upd = Some v\<close> y
      have "getProp kv ''birthdayYear'' = Some (JNum (of_int i))"
        by (cases "getProp kv ''birthdayYear''" rule: zIntNullableOptional.cases)
          (auto simp: isInteger_def split: if_splits)
      with assms(2) Some \<open>set_birthdayYear upd = Some v\<close> show ?thesis
        by (simp add: integerColumn_def)
    qed
  qed
  from updateContactSchema_Inr [OF assms(1)]
  have "integerColumn (set_birthdayMonth upd)" "integerColumn (set_birthdayDay upd)"
    by (auto simp: integerColumn_def split: option.splits)
  with year show ?thesis by simp
qed

text \<open>
  Claim C8, as the code has it. Let the id be a spelling of the uuid of a contact that the
  caller owns, and let the body of the PUT pass validation, with a name free of the
  character of code 0 if it has one and a year of 32 bits if it has one. Then the answer is 200 with the updated row and the table holds that row in
  place of the old one, every other row being as before. In the updated row each field
  the body supplies has the supplied value (a year of \<open>null\<close> clears the year),
  \<open>updatedAt\<close> is what the server's clock shows at the request, and the identifier, the
  owner, \<open>createdAt\<close> and every field the body does not supply are unchanged. A
  get-by-id that follows returns that row.
\<close>

theorem updateContact_frame:
  assumes caller: "getAuthenticatedUser e req st = Inr (Inr owner)"
    and key: "distinct (map cid (contactsBirthdays st))"
    and mine: "c \<in> set (contactsBirthdays st)" "uuidIn e (params_id req) = Some (cid c)"
      "userId c = uid owner"
    and body: "req_body req = JObj kv" "updateContactSchema (JObj kv) = Inr upd"
    and nul: "\<forall>n. getProp kv ''name'' = Some (JStr n) \<longrightarrow> CHR 0x00 \<notin> set n"
    and year: "\<forall>y. getProp kv ''birthdayYear'' = Some (JNum (of_int y)) \<longrightarrow>
                 - 2147483648 \<le> y \<and> y \<le> 2147483647"
  shows "\<exists>c' st'.
           updateContact e req st = (Response 200 (ContactBody c'), st') \<and>
           users st' = users st \<and>
           contactsBirthdays st' = map (\<lambda>x. if x = c then c' else x) (contactsBirthdays st) \<and>
           (\<forall>e'. storeUp e' \<and> uuidIn e' (params_id req) = Some (cid c) \<longrightarrow>
              getContactById e' req st' = (Response 200 (ContactBody c'), st')) \<and>
           cid c' = cid c \<and> userId c' = userId c \<and> createdAt c' = createdAt c \<and>
           updatedAt c' = Some (now e) \<and>
           (getProp kv ''name'' = None \<longrightarrow> name c' = name c) \<and>
           (\<forall>n. getProp kv ''name'' = Some (JStr n) \<longrightarrow> name c' = n) \<and>
           (getProp kv ''birthdayMonth'' = None \<longrightarrow> birthdayMonth c' = birthdayMonth c) \<and>
           (\<forall>m. getProp kv ''birthdayMonth'' = Some (JNum (of_int m)) \<longrightarrow> birthdayMonth c' = m) \<and>
           (getProp kv ''birthdayDay'' = None \<longrightarrow> birthdayDay c' = birthdayDay c) \<and>
           (\<forall>d. getProp kv ''birthdayDay'' = Some (JNum (of_int d)) \<longrightarrow> birthdayDay c' = d) \<and>
           (getProp kv ''birthdayYear'' = None \<longrightarrow> birthdayYear c' = birthdayYear c) \<and>
           (getProp kv ''birthdayYear'' = Some JNull \<longrightarrow> birthdayYear c' = None) \<and>
           (\<forall>y. getProp kv ''birthdayYear'' = Some (JNum (of_int y)) \<longrightarrow> birthdayYear c' = Some y)"
proof -
  let ?i = "params_id req" and ?u = "uid owner"
  let ?c' = "applyUpdate (now e) upd c"
  let ?cs' = "map (\<lambda>x. if x = c then ?c' else x) (contactsBirthdays st)"
  let ?st' = "st\<lparr>contactsBirthdays := ?cs'\<rparr>"
  from getAuthenticatedUser_user [OF caller] have up: "storeUp e" by simp
  note own = mine(1) refl [of "cid c"] mine(3)
  note row = filter_owned_row [OF key own]
  have sel: "selectContact e st ?i ?u = Inr [c]"
    using up by (simp add: selectContact_def mine(2) row)
  note ints = updateContactSchema_integers [OF body(2) year]
  note chars = updateContactSchema_text [OF body(2) nul]
  have rows: "updateContactRows e st ?i ?u upd = Inr ([?c'], ?st')"
    using up ints chars by (simp add: updateContactRows_def mine(2) row map_owned_row [OF key own])
  have valid: "updateContactSchema (req_body req) = Inr upd"
    using body by simp
  have result: "updateContact e req st = (Response 200 (ContactBody ?c'), ?st')"
    by (simp add: updateContact_def valid caller sel rows)
  have us: "users ?st' = users st" by simp
  have cs: "contactsBirthdays ?st' = ?cs'" by simp
  have after: "getContactById e' req ?st' = (Response 200 (ContactBody ?c'), ?st')"
    if e': "storeUp e' \<and> uuidIn e' (params_id req) = Some (cid c)" for e'
  proof -
    from e' have up': "storeUp e'" and read': "uuidIn e' (params_id req) = Some (cid c)"
      by simp_all
    have a: "getAuthenticatedUser e' req ?st' = Inr (Inr owner)"
      by (rule getAuthenticatedUser_frame [OF caller us up'])
    have "filter (owned (cid c) ?u) ?cs' = [?c']"
      by (rule filter_owned_after [OF key own]) simp_all
    then have s: "selectContact e' ?st' ?i ?u = Inr [?c']"
      using up' read' by (simp add: selectContact_def)
    show ?thesis
      by (simp only: getContactById_def a s sum.case list.case)
  qed
  note fields = applyUpdate_supplied [OF body(2), of "now e" c]
  have ids: "cid ?c' = cid c \<and> userId ?c' = userId c \<and> createdAt ?c' = createdAt c \<and>
             updatedAt ?c' = Some (now e)"
    by simp
  from result us cs after ids fields show ?thesis
    by (intro exI [of _ ?c'] exI [of _ ?st']) blast
qed

lemma ownRequest_caller:
  "getAuthenticatedUser e (ownRequest b) exampleStore =
     (if storeUp e then Inr (Inr userA) else Inl StoreError)"
  by (simp add: getAuthenticatedUser_def ownRequest_def falsy_def selectUserByClerkId_def
      query_def exampleStore_def userA_def userB_def)

lemma ownRequest_reads:
  "uuid_in (params_id (ownRequest b)) = Some (cid ada)"
  by (simp add: ada_def ownRequest_def uuid_in_def hyphenAfter_def hexDigit_def uuidText_def)

lemma ownRequest_rows:
  "filter (owned (cid ada) (uid userA)) (contactsBirthdays exampleStore) = [ada]"
  by (simp add: owned_def exampleStore_def ada_def userA_def)

theorem updateContact_frame_witness:
  "getAuthenticatedUser exampleEnv (ownRequest (JObj [(''birthdayDay'', JNum 11)])) exampleStore =
     Inr (Inr userA) \<and>
   distinct (map cid (contactsBirthdays exampleStore)) \<and>
   ada \<in> set (contactsBirthdays exampleStore) \<and>
   uuidIn exampleEnv (params_id (ownRequest (JObj [(''birthdayDay'', JNum 11)]))) =
     Some (cid ada) \<and>
   userId ada = uid userA \<and>
   updateContact exampleEnv (ownRequest (JObj [(''birthdayDay'', JNum 11)])) exampleStore =
     (Response 200 (ContactBody (ada\<lparr>birthdayDay := 11, updatedAt := Some 7\<rparr>)),
      exampleStore\<lparr>contactsBirthdays := [ada\<lparr>birthdayDay := 11, updatedAt := Some 7\<rparr>]\<rparr>) \<and>
   getContactById exampleEnv (ownRequest (JObj [(''birthdayDay'', JNum 11)]))
       (exampleStore\<lparr>contactsBirthdays := [ada\<lparr>birthdayDay := 11, updatedAt := Some 7\<rparr>]\<rparr>) =
     (Response 200 (ContactBody (ada\<lparr>birthdayDay := 11, updatedAt := Some 7\<rparr>)),
      exampleStore\<lparr>contactsBirthdays := [ada\<lparr>birthdayDay := 11, updatedAt := Some 7\<rparr>]\<rparr>)"
proof -
  let ?kv = "[(''birthdayDay'', JNum 11)]"
  let ?req = "ownRequest (JObj ?kv)"
  let ?upd = "\<lparr>set_name = None, set_birthdayMonth = None, set_birthdayDay = Some 11,
               set_birthdayYear = None\<rparr>"
  let ?c' = "ada\<lparr>birthdayDay := 11, updatedAt := Some 7\<rparr>"
  let ?st' = "exampleStore\<lparr>contactsBirthdays := [?c']\<rparr>"
  have up: "storeUp exampleEnv" by (simp add: exampleEnv_def)
  have h1: "getAuthenticatedUser exampleEnv ?req exampleStore = Inr (Inr userA)"
    by (simp add: ownRequest_caller up)
  have h2: "distinct (map cid (contactsBirthdays exampleStore))"
    by (simp add: exampleStore_def)
  have h3: "ada \<in> set (contactsBirthdays exampleStore)"
    by (simp add: exampleStore_def)
  have h4: "uuidIn exampleEnv (params_id ?req) = Some (cid ada)"
    by (simp add: exampleEnv_def ownRequest_reads)
  have h5: "userId ada = uid userA"
    by (simp add: ada_def userA_def)
  have h6: "req_body ?req = JObj ?kv"
    by (simp add: ownRequest_def)
  have h7: "updateContactSchema (JObj ?kv) = Inr ?upd"
    by (simp add: updateContactSchema_def getProp_def suppliedKeys_def numberChecks_def
        isInteger_def)
  have h8: "\<forall>n. getProp ?kv ''name'' = Some (JStr n) \<longrightarrow> CHR 0x00 \<notin> set n"
    by (simp add: getProp_def)
  have h9: "\<forall>y. getProp ?kv ''birthdayYear'' = Some (JNum (of_int y)) \<longrightarrow>
                 - 2147483648 \<le> y \<and> y \<le> 2147483647"
    by (simp add: getProp_def)
  from updateContact_frame [OF h1 h2 h3 h4 h5 h6 h7 h8 h9] obtain c' st'
    where r: "updateContact exampleEnv ?req exampleStore = (Response 200 (ContactBody c'), st')"
      and g: "\<forall>e'. storeUp e' \<and> uuidIn e' (params_id ?req) = Some (cid ada) \<longrightarrow>
               getContactById e' ?req st' = (Response 200 (ContactBody c'), st')"
    by (elim exE conjE) (rule that; assumption)
  have r': "updateContact exampleEnv ?req exampleStore = (Response 200 (ContactBody ?c'), ?st')"
  proof -
    have sel: "selectContact exampleEnv exampleStore (params_id ?req) (uid userA) = Inr [ada]"
      by (simp add: selectContact_def up h4 ownRequest_rows)
    have rows: "updateContactRows exampleEnv exampleStore (params_id ?req) (uid userA) ?upd =
        Inr ([?c'], ?st')"
      by (simp add: updateContactRows_def up h4 ownRequest_rows integerColumn_def)
        (simp add: owned_def applyUpdate_def exampleEnv_def exampleStore_def ada_def userA_def)
    show ?thesis
      by (simp add: updateContact_def h6 h7 h1 sel rows)
  qed
  from r r' have "(Response 200 (ContactBody c'), st') = (Response 200 (ContactBody ?c'), ?st')"
    by (simp only:)
  then have c': "c' = ?c'" and st': "st' = ?st'"
    by (simp_all only: prod.inject response.inject body.inject)
  from g up h4 have g': "getContactById exampleEnv ?req ?st' = (Response 200 (ContactBody ?c'), ?st')"
    unfolding c' st' by blast
  from h1 h2 h3 h4 h5 r' g' show ?thesis by (intro conjI)
qed

text \<open>
  The claim as stated has \<open>updatedAt\<close> advance at every valid update, and every update
  that passes validation stored. The new stamp is the server's clock at the request, the
  old one came from the store's clock: with the server's clock behind, the stamp goes
  back, here from 3 to 2. And a year of \<open>2^31\<close> passes validation, the update throws,
  the answer is 500 and the row stays as it was; so it is for a name with the character
  of code 0 in it.
\<close>

theorem updateContact_counterexample:
  "updatedAt ada = Some 3 \<and>
   updateContact (exampleEnv\<lparr>now := 2\<rparr>) (ownRequest (JObj [(''birthdayDay'', JNum 11)]))
       exampleStore =
     (Response 200 (ContactBody (ada\<lparr>birthdayDay := 11, updatedAt := Some 2\<rparr>)),
      exampleStore\<lparr>contactsBirthdays := [ada\<lparr>birthdayDay := 11, updatedAt := Some 2\<rparr>]\<rparr>) \<and>
   updateContactSchema (JObj [(''birthdayYear'', JNum 2147483648)]) =
     Inr \<lparr>set_name = None, set_birthdayMonth = None, set_birthdayDay = None,
          set_birthdayYear = Some (Some 2147483648)\<rparr> \<and>
   updateContact exampleEnv (ownRequest (JObj [(''birthdayYear'', JNum 2147483648)]))
       exampleStore =
     (Response 500 (ErrorBody ''Internal server error''), exampleStore) \<and>
   updateContactSchema (JObj [(''name'', JStr (''Ada'' @ [CHR 0x00]))]) =
     Inr \<lparr>set_name = Some (''Ada'' @ [CHR 0x00]), set_birthdayMonth = None,
          set_birthdayDay = None, set_birthdayYear = None\<rparr> \<and>
   updateContact exampleEnv (ownRequest (JObj [(''name'', JStr (''Ada'' @ [CHR 0x00]))]))
       exampleStore =
     (Response 500 (ErrorBody ''Internal server error''), exampleStore)"
proof -
  let ?early = "exampleEnv\<lparr>now := 2\<rparr>"
  let ?kv = "[(''birthdayDay'', JNum 11)]"
  let ?req = "ownRequest (JObj ?kv)"
  let ?upd = "\<lparr>set_name = None, set_birthdayMonth = None, set_birthdayDay = Some 11,
               set_birthdayYear = None\<rparr>"
  let ?c' = "ada\<lparr>birthdayDay := 11, updatedAt := Some 2\<rparr>"
  let ?st' = "exampleStore\<lparr>contactsBirthdays := [?c']\<rparr>"
  let ?kv2 = "[(''birthdayYear'', JNum 2147483648)]"
  let ?req2 = "ownRequest (JObj ?kv2)"
  let ?upd2 = "\<lparr>set_name = None, set_birthdayMonth = None, set_birthdayDay = None,
                set_birthdayYear = Some (Some 2147483648)\<rparr>"
  have up: "storeUp exampleEnv" by (simp add: exampleEnv_def)
  have rd: "uuidIn exampleEnv (params_id (ownRequest b)) = Some (cid ada)" for b
    by (simp add: exampleEnv_def ownRequest_reads)
  have v1: "updateContactSchema (req_body ?req) = Inr ?upd"
    by (simp add: ownRequest_def updateContactSchema_def getProp_def suppliedKeys_def
        numberChecks_def isInteger_def)
  have v2: "updateContactSchema (JObj ?kv2) = Inr ?upd2"
    by (simp add: updateContactSchema_def getProp_def suppliedKeys_def isInteger_def)
  have b2: "req_body ?req2 = JObj ?kv2" by (simp add: ownRequest_def)
  have sel1: "selectContact ?early exampleStore (params_id ?req) (uid userA) = Inr [ada]"
    by (simp add: selectContact_def up rd ownRequest_rows)
  have rows1: "updateContactRows ?early exampleStore (params_id ?req) (uid userA) ?upd =
      Inr ([?c'], ?st')"
    by (simp add: updateContactRows_def up rd ownRequest_rows integerColumn_def)
      (simp add: owned_def applyUpdate_def exampleStore_def ada_def userA_def)
  have early: "updateContact ?early ?req exampleStore = (Response 200 (ContactBody ?c'), ?st')"
    by (simp add: updateContact_def v1 ownRequest_caller up sel1 rows1)
  have sel2: "selectContact exampleEnv exampleStore (params_id ?req2) (uid userA) = Inr [ada]"
    by (simp add: selectContact_def up rd ownRequest_rows)
  have rows2: "updateContactRows exampleEnv exampleStore (params_id ?req2) (uid userA) ?upd2 =
      Inl StoreError"
    by (simp add: updateContactRows_def integerColumn_def)
  have distant: "updateContact exampleEnv ?req2 exampleStore =
      (Response 500 (ErrorBody ''Internal server error''), exampleStore)"
    by (simp add: updateContact_def b2 v2 ownRequest_caller up sel2 rows2
        internalServerError_def)
  let ?n = "[CHR ''A'', CHR ''d'', CHR ''a'', CHR 0x00]"
  let ?kv3 = "[(''name'', JStr ?n)]"
  let ?req3 = "ownRequest (JObj ?kv3)"
  let ?upd3 = "\<lparr>set_name = Some ?n, set_birthdayMonth = None,
                set_birthdayDay = None, set_birthdayYear = None\<rparr>"
  have v3: "updateContactSchema (JObj ?kv3) = Inr ?upd3"
    by (simp add: updateContactSchema_def getProp_def suppliedKeys_def)
  have b3: "req_body ?req3 = JObj ?kv3" by (simp add: ownRequest_def)
  have sel3: "selectContact exampleEnv exampleStore (params_id ?req3) (uid userA) = Inr [ada]"
    by (simp add: selectContact_def up rd ownRequest_rows)
  have rows3: "updateContactRows exampleEnv exampleStore (params_id ?req3) (uid userA) ?upd3 =
      Inl StoreError"
    by (simp add: updateContactRows_def textColumn_def)
  have nul: "updateContact exampleEnv ?req3 exampleStore =
      (Response 500 (ErrorBody ''Internal server error''), exampleStore)"
    by (simp add: updateContact_def b3 v3 ownRequest_caller up sel3 rows3
        internalServerError_def)
  have stamp: "updatedAt ada = Some 3" by (simp add: ada_def)
  have ada0: "''Ada'' @ [CHR 0x00] = ?n" by simp
  from stamp early v2 distant v3 nul show ?thesis
    unfolding ada0 by (intro conjI)
qed

section \<open>The chat endpoint\<close>

lemma chat_no_list:
  assumes "req_body req \<noteq> JNull"
    and "\<forall>kv msgs. req_body req = JObj kv \<longrightarrow> getProp kv ''messages'' \<noteq> Some (JArr msgs)"
  shows "chatWithAssistant sp conv e req st =
           Replied (Response 400 (ErrorBody ''Messages array is required''))"
proof (cases "req_body req")
  case (JObj kv)
  with assms(2) have "\<forall>msgs. getProp kv ''messages'' \<noteq> Some (JArr msgs)" by simp
  then show ?thesis
    by (cases "getProp kv ''messages''"; cases "the (getProp kv ''messages'')")
       (simp_all add: chatWithAssistant_def JObj)
qed (use assms(1) in \<open>simp_all add: chatWithAssistant_def\<close>)

lemma chat_no_identity:
  assumes "req_body req = JObj kv" "getProp kv ''messages'' = Some (JArr msgs)"
    and "falsy (auth_userId req)"
  shows "chatWithAssistant sp conv e req st = Replied (Response 401 (ErrorBody ''Unauthorized''))"
  using assms by (simp add: chatWithAssistant_def)

lemma chat_streamed:
  assumes "chatWithAssistant sp conv e req st = Streamed call"
  shows "(\<exists>kv msgs. req_body req = JObj kv \<and> getProp kv ''messages'' = Some (JArr msgs)) \<and>
         \<not> falsy (auth_userId req) \<and>
         (\<exists>userId'. getUserId e st (the (auth_userId req)) = Inr userId' \<and>
            stopWhen call = stepCountIs 3 \<and> tools call = createTools userId')"
proof (cases "req_body req")
  case (JObj kv)
  show ?thesis
  proof (cases "getProp kv ''messages''")
    case None
    with assms JObj show ?thesis by (simp add: chatWithAssistant_def)
  next
    case (Some m)
    show ?thesis
    proof (cases m)
      case (JArr msgs)
      with assms JObj Some show ?thesis
        by (auto simp: chatWithAssistant_def split: if_splits sum.splits)
    qed (use assms JObj Some in \<open>simp_all add: chatWithAssistant_def\<close>)
  qed
qed (use assms in \<open>simp_all add: chatWithAssistant_def\<close>)

text \<open>
  Claim C9, as the code has it. A chat request with a body in which \<open>messages\<close> is missing
  or is not a list is answered 400, whoever the caller is. A request whose \<open>messages\<close> is
  a list and that has no caller identity is answered 401. Neither builds a call of the
  completion service: a request for which the call is built has a message list and a
  caller identity.
\<close>

theorem chatWithAssistant_rejections:
  "(req_body req \<noteq> JNull \<and>
    (\<forall>kv msgs. req_body req = JObj kv \<longrightarrow> getProp kv ''messages'' \<noteq> Some (JArr msgs)) \<longrightarrow>
      chatWithAssistant sp conv e req st =
        Replied (Response 400 (ErrorBody ''Messages array is required''))) \<and>
   (req_body req = JObj kv \<and> getProp kv ''messages'' = Some (JArr msgs) \<and>
    falsy (auth_userId req) \<longrightarrow>
      chatWithAssistant sp conv e req st = Replied (Response 401 (ErrorBody ''Unauthorized''))) \<and>
   (\<forall>call. chatWithAssistant sp conv e req st = Streamed call \<longrightarrow>
      (\<exists>kv msgs. req_body req = JObj kv \<and> getProp kv ''messages'' = Some (JArr msgs)) \<and>
      \<not> falsy (auth_userId req))"
  using chat_no_list [of req sp conv e st] chat_no_identity [of req kv msgs sp conv e st]
    chat_streamed [of sp conv e req st]
  by blast

theorem chatWithAssistant_rejections_witness:
  "chatWithAssistant [] Inr exampleEnv
     (chatRequest (Some ''clerk_a'') [(''messages'', JStr ''what are my birthdays'')]) exampleStore =
     Replied (Response 400 (ErrorBody ''Messages array is required'')) \<and>
   chatWithAssistant [] Inr exampleEnv
     (chatRequest None [(''messages'', JArr [JStr ''hello''])]) exampleStore =
     Replied (Response 401 (ErrorBody ''Unauthorized''))"
proof -
  let ?r1 = "chatRequest (Some ''clerk_a'') [(''messages'', JStr ''what are my birthdays'')]"
  let ?kv2 = "[(''messages'', JArr [JStr ''hello''])]"
  let ?r2 = "chatRequest None ?kv2"
  have a: "req_body ?r1 \<noteq> JNull \<and>
    (\<forall>kv msgs. req_body ?r1 = JObj kv \<longrightarrow> getProp kv ''messages'' \<noteq> Some (JArr msgs))"
    by (simp add: chatRequest_def getProp_def)
  have b: "req_body ?r2 = JObj ?kv2 \<and> getProp ?kv2 ''messages'' = Some (JArr [JStr ''hello'']) \<and>
    falsy (auth_userId ?r2)"
    by (simp add: chatRequest_def getProp_def falsy_def)
  from a chatWithAssistant_rejections [of ?r1 "[]" Inr exampleEnv exampleStore]
  have 1: "chatWithAssistant [] Inr exampleEnv ?r1 exampleStore =
     Replied (Response 400 (ErrorBody ''Messages array is required''))"
    by blast
  from b chatWithAssistant_rejections [of ?r2 "[]" Inr exampleEnv exampleStore ?kv2 "[JStr ''hello'']"]
  have 2: "chatWithAssistant [] Inr exampleEnv ?r2 exampleStore =
     Replied (Response 401 (ErrorBody ''Unauthorized''))"
    by blast
  from 1 2 show ?thesis by (intro conjI)
qed

text \<open>
  The claim as stated promises 401 for every request without a caller identity. The
  check of the messages comes first: such a request without messages is answered 400.
\<close>

theorem chat_unidentified_counterexample:
  "falsy (auth_userId (chatRequest None [])) \<and>
   chatWithAssistant [] Inr exampleEnv (chatRequest None []) exampleStore =
     Replied (Response 400 (ErrorBody ''Messages array is required'')) \<and>
   chatWithAssistant [] Inr exampleEnv (chatRequest None []) exampleStore \<noteq>
     Replied (Response 401 (ErrorBody ''Unauthorized''))"
  by (simp add: chatWithAssistant_def chatRequest_def getProp_def falsy_def)

section \<open>The completion call\<close>

lemma streamText_bounded:
  assumes "stopWhen call = stepCountIs n" "length steps < n"
  shows "\<exists>out. streamText call llm e st steps = Some out \<and>
           length steps < length out \<and> length out \<le> n"
  using assms(2)
proof (induction "n - length steps" arbitrary: steps rule: less_induct)
  case less
  define s where "s = runTurn (tools call) e st (llm steps)"
  show ?case
  proof (cases "madeToolCalls s \<and> Suc (length steps) \<noteq> n")
    case True
    then have more: "Suc (length steps) < n" using less.prems by simp
    have unfold: "streamText call llm e st steps = streamText call llm e st (steps @ [s])"
      using True by (subst streamText.simps) (simp add: s_def [symmetric] assms(1) Let_def)
    have "n - length (steps @ [s]) < n - length steps" using more by simp
    from less.hyps [OF this] more obtain out
      where "streamText call llm e st (steps @ [s]) = Some out"
        "length (steps @ [s]) < length out" "length out \<le> n"
      by auto
    with unfold show ?thesis by auto
  next
    case False
    then have "streamText call llm e st steps = Some (steps @ [s])"
      by (subst streamText.simps) (auto simp: s_def [symmetric] assms(1) Let_def)
    with less.prems show ?thesis by simp
  qed
qed

lemma callTool_createTools:
  "callTool (createTools userId') e st n =
     (if n = ''getContacts'' then execute_getContacts userId' e st else Inl NoSuchToolError)"
  by (simp add: callTool_def createTools_def)

lemma execute_getContacts_own:
  assumes "filter (\<lambda>c. userId c = the u) (contactsBirthdays st1) =
           filter (\<lambda>c. userId c = the u) (contactsBirthdays st2)"
  shows "execute_getContacts u e st1 = execute_getContacts u e st2"
  using assms by (simp add: execute_getContacts_def selectContactsOfUser_def)

text \<open>
  Claim C2. Whenever a chat request gets as far as the completion call, the call's stop
  condition is \<open>stepCountIs 3\<close> and its tools are exactly one, \<open>getContacts\<close>, whose
  \<open>execute\<close> is closed over the user id resolved for the caller: calling any other tool
  name finds no tool. Whatever the language model does, the step loop under that stop
  condition ends, after at least one and at most three steps.
\<close>

theorem chatWithAssistant_bounded:
  assumes "chatWithAssistant sp conv e req st = Streamed call"
  shows "stopWhen call = stepCountIs 3 \<and>
         map fst (tools call) = [''getContacts''] \<and>
         (\<exists>userId'. getUserId e st (the (auth_userId req)) = Inr userId' \<and>
            tools call = createTools userId' \<and>
            (\<forall>e' st' n. callTool (tools call) e' st' n =
               (if n = ''getContacts'' then execute_getContacts userId' e' st'
                else Inl NoSuchToolError))) \<and>
         (\<forall>llm e' st'. \<exists>steps. streamText call llm e' st' [] = Some steps \<and>
            0 < length steps \<and> length steps \<le> 3)"
proof -
  from chat_streamed [OF assms] obtain userId'
    where u: "getUserId e st (the (auth_userId req)) = Inr userId'"
      and stop: "stopWhen call = stepCountIs 3"
      and ts: "tools call = createTools userId'"
    by blast
  have names: "map fst (tools call) = [''getContacts'']"
    by (simp add: ts createTools_def)
  have only: "\<forall>e' st' n. callTool (tools call) e' st' n =
               (if n = ''getContacts'' then execute_getContacts userId' e' st'
                else Inl NoSuchToolError)"
    by (simp only: ts callTool_createTools) simp
  have loop: "\<exists>steps. streamText call llm e' st' [] = Some steps \<and>
            0 < length steps \<and> length steps \<le> 3" for llm e' st'
    using streamText_bounded [OF stop, of "[]" llm e' st'] by simp
  from stop names u ts only loop show ?thesis by blast
qed

lemma adaCall_streamed:
  "chatWithAssistant [] Inr exampleEnv
     (chatRequest (Some ''clerk_a'') [(''messages'', JArr [JStr ''hello''])]) exampleStore =
   Streamed adaCall"
  by (simp add: chatWithAssistant_def chatRequest_def getProp_def falsy_def getUserId_def
      selectUserByClerkId_def query_def exampleEnv_def exampleStore_def userA_def userB_def
      adaCall_def)

lemma adaCall_greedy:
  "streamText adaCall greedyModel exampleEnv exampleStore [] = Some [adaStep, adaStep, adaStep]"
proof -
  have line: "formatContact (rowObject ada) = ''- Ada: December 10, 1815''"
    by (simp add: formatContact_row ada_def elementText_def MONTH_NAMES_def numberText_def
        digits.simps digitChars_def)
  have ex: "execute_getContacts (Some ''aaaaaaaa-aaaa-4aaa-8aaa-aaaaaaaaaaaa'') exampleEnv exampleStore =
      Inr (''1 contact(s):'' @ [CHR 0x0A] @ ''- Ada: December 10, 1815'')"
    by (simp add: execute_getContacts_def falsy_def selectContactsOfUser_def query_def
        exampleEnv_def exampleStore_def line numberText_def digits.simps digitChars_def)
      (simp add: ada_def)
  have turn: "runTurn (tools adaCall) exampleEnv exampleStore (greedyModel steps) = adaStep"
    for steps
    by (simp add: greedyModel_def adaCall_def callTool_createTools ex adaStep_def)
  have calls: "madeToolCalls adaStep" by (simp add: adaStep_def)
  have stop: "stopWhen adaCall = stepCountIs 3" by (simp add: adaCall_def)
  have 3: "streamText adaCall greedyModel exampleEnv exampleStore [adaStep, adaStep] =
      Some [adaStep, adaStep, adaStep]"
    by (subst streamText.simps) (simp add: turn stop calls Let_def)
  have 2: "streamText adaCall greedyModel exampleEnv exampleStore [adaStep] =
      Some [adaStep, adaStep, adaStep]"
    by (subst streamText.simps) (simp add: turn stop calls 3 Let_def)
  show ?thesis
    by (subst streamText.simps) (simp add: turn stop calls 2 Let_def)
qed

theorem chatWithAssistant_bounded_witness:
  "chatWithAssistant [] Inr exampleEnv
     (chatRequest (Some ''clerk_a'') [(''messages'', JArr [JStr ''hello''])]) exampleStore =
     Streamed adaCall \<and>
   stopWhen adaCall = stepCountIs 3 \<and>
   map fst (tools adaCall) = [''getContacts''] \<and>
   (\<exists>steps. streamText adaCall greedyModel exampleEnv exampleStore [] = Some steps \<and>
      0 < length steps \<and> length steps \<le> 3) \<and>
   streamText adaCall greedyModel exampleEnv exampleStore [] = Some [adaStep, adaStep, adaStep]"
proof -
  note t = chatWithAssistant_bounded [OF adaCall_streamed]
  from t have a: "stopWhen adaCall = stepCountIs 3" by (rule conjunct1)
  from t have b: "map fst (tools adaCall) = [''getContacts'']" by blast
  from t have c: "\<exists>steps. streamText adaCall greedyModel exampleEnv exampleStore [] = Some steps \<and>
      0 < length steps \<and> length steps \<le> 3"
    by blast
  from adaCall_streamed a b c adaCall_greedy show ?thesis by (intro conjI)
qed

end
